theory Spec2Isabelle
  imports Complex_Main
begin

section \<open>Python values used by the cost estimation backend\<close>

text \<open>
  The backend is Python. Its \<open>float\<close> values are modelled as \<^typ>\<open>real\<close> numbers (exact
  arithmetic, no NaN or infinity), its \<open>int\<close> values as \<^typ>\<open>int\<close>, its \<open>str\<close> values as
  \<^typ>\<open>string\<close> restricted to ASCII, a \<open>dict\<close> with string keys as a map, and every
  \<open>raise\<close> as the left summand of a sum type.
\<close>

datatype py_exception =
    ValueError string
  | KeyError string
  | TypeError
  | ZeroDivisionError
  | OperationalError

text \<open>\<open>round(x, ndigits)\<close>: to the nearest multiple of \<open>10 ^ -ndigits\<close>, ties to even.\<close>

definition py_round :: "real \<Rightarrow> nat \<Rightarrow> real" where
  "py_round x ndigits =
     (let s = 10 ^ ndigits; y = x * s; f = \<lfloor>y\<rfloor>; r = y - of_int f;
          q = (if r < 1 / 2 then f else if 1 / 2 < r then f + 1
               else if even f then f else f + 1)
      in of_int q / s)"

text \<open>\<open>str.lower()\<close>, \<open>str.strip()\<close>, \<open>x in s\<close>, \<open>str.startswith\<close>, \<open>str.endswith\<close>,
  \<open>str.replace\<close> on single characters, \<open>str.split()\<close> and \<open>sep.join\<close>.\<close>

definition lower_char :: "char \<Rightarrow> char" where
  "lower_char c =
     (case map_of (zip ''ABCDEFGHIJKLMNOPQRSTUVWXYZ'' ''abcdefghijklmnopqrstuvwxyz'') c of
        Some d \<Rightarrow> d
      | None \<Rightarrow> c)"

definition lower :: "string \<Rightarrow> string" where
  "lower s = map lower_char s"

definition isspace :: "char \<Rightarrow> bool" where
  "isspace c = (c \<in> set [CHR '' '', CHR 0x09, CHR 0x0A, CHR 0x0B, CHR 0x0C, CHR 0x0D,
                            CHR 0x1C, CHR 0x1D, CHR 0x1E, CHR 0x1F])"

definition strip :: "string \<Rightarrow> string" where
  "strip s = rev (dropWhile isspace (rev (dropWhile isspace s)))"

definition startswith :: "string \<Rightarrow> string \<Rightarrow> bool" where
  "startswith s p = (take (length p) s = p)"

definition endswith :: "string \<Rightarrow> string \<Rightarrow> bool" where
  "endswith s p = (length p \<le> length s \<and> drop (length s - length p) s = p)"

fun contains :: "string \<Rightarrow> string \<Rightarrow> bool" where
  "contains s [] = True"
| "contains [] (p # ps) = False"
| "contains (c # cs) (p # ps) = (startswith (c # cs) (p # ps) \<or> contains cs (p # ps))"

definition replace_char :: "char \<Rightarrow> char \<Rightarrow> string \<Rightarrow> string" where
  "replace_char a b s = map (\<lambda>c. if c = a then b else c) s"

fun split_words :: "string \<Rightarrow> string \<Rightarrow> string list" where
  "split_words cur [] = (if cur = [] then [] else [rev cur])"
| "split_words cur (c # cs) =
     (if isspace c then (if cur = [] then split_words [] cs else rev cur # split_words [] cs)
      else split_words (c # cur) cs)"

definition split :: "string \<Rightarrow> string list" where
  "split s = split_words [] s"

fun join :: "string \<Rightarrow> string list \<Rightarrow> string" where
  "join sep [] = []"
| "join sep [w] = w"
| "join sep (w # v # ws) = w @ sep @ join sep (v # ws)"

text \<open>\<open>d[k]\<close> on a dict raises \<open>KeyError\<close> for a missing key.\<close>

definition getitem :: "(string \<rightharpoonup> 'v) \<Rightarrow> string \<Rightarrow> py_exception + 'v" where
  "getitem d k = (case d k of None \<Rightarrow> Inl (KeyError k) | Some v \<Rightarrow> Inr v)"

section \<open>Constants of \<open>CostCalculationService\<close>\<close>

definition CONVENTIONAL_OPERATOR_MONTHLY_WAGE :: real where
  "CONVENTIONAL_OPERATOR_MONTHLY_WAGE = 15000"

definition CNC_OPERATOR_MONTHLY_WAGE :: real where
  "CNC_OPERATOR_MONTHLY_WAGE = 20000"

definition HOURS_PER_MONTH_FOR_WAGE :: real where
  "HOURS_PER_MONTH_FOR_WAGE = 200"

definition ANNUAL_DEPRECIATION_RATE :: real where
  "ANNUAL_DEPRECIATION_RATE = 0.10"

definition MAINTENANCE_RATE :: real where
  "MAINTENANCE_RATE = 0.05"

definition POWER_RATE_PER_UNIT :: real where
  "POWER_RATE_PER_UNIT = 5"

definition CONVENTIONAL_DOWNTIME_RATE :: real where
  "CONVENTIONAL_DOWNTIME_RATE = 0.07"

definition CNC_DOWNTIME_RATE :: real where
  "CNC_DOWNTIME_RATE = 0.15"

definition ANNUAL_WORKING_HOURS :: real where
  "ANNUAL_WORKING_HOURS = 2400"

section \<open>\<open>calculate_costs\<close>: the single-operation cost formula\<close>

text \<open>The local variables of \<open>calculate_costs\<close>, before the rounding of the returned dict.\<close>

record cost_locals =
  basic_cost :: real
  overheads :: real
  profit :: real
  packing_forwarding :: real
  unit_cost :: real
  total_unit_cost_with_misc :: real
  total_cost :: real
  outsourcing_mhr :: real

definition calculate_costs_locals ::
  "real \<Rightarrow> real \<Rightarrow> real \<Rightarrow> int \<Rightarrow> real \<Rightarrow> cost_locals" where
  "calculate_costs_locals man_hours machine_hour_rate wage_rate quantity miscellaneous_amount =
     (let basic_cost = man_hours * (machine_hour_rate + wage_rate);
          overheads = wage_rate * man_hours;
          profit = 0.10 * (basic_cost + overheads);
          packing_forwarding = 0.02 * basic_cost;
          unit_cost = basic_cost + overheads + profit + packing_forwarding;
          total_unit_cost_with_misc = unit_cost + miscellaneous_amount;
          total_cost = total_unit_cost_with_misc * of_int quantity;
          outsourcing_mhr = machine_hour_rate + (2 * wage_rate)
      in \<lparr>basic_cost = basic_cost, overheads = overheads, profit = profit,
          packing_forwarding = packing_forwarding, unit_cost = unit_cost,
          total_unit_cost_with_misc = total_unit_cost_with_misc, total_cost = total_cost,
          outsourcing_mhr = outsourcing_mhr\<rparr>)"

text \<open>The returned dict; \<open>total_cost\<close> is optional because the route pops it.\<close>

record cost_dict =
  d_man_hours_per_unit :: real
  d_machine_hour_rate :: real
  d_wage_rate :: real
  d_basic_cost_per_unit :: real
  d_overheads_per_unit :: real
  d_profit_per_unit :: real
  d_packing_forwarding_per_unit :: real
  d_unit_cost :: real
  d_total_unit_cost_with_misc :: real
  d_total_cost :: "real option"
  d_outsourcing_mhr :: real
  d_miscellaneous_amount :: real

definition calculate_costs :: "real \<Rightarrow> real \<Rightarrow> real \<Rightarrow> int \<Rightarrow> real \<Rightarrow> cost_dict" where
  "calculate_costs man_hours machine_hour_rate wage_rate quantity miscellaneous_amount =
     (let v = calculate_costs_locals man_hours machine_hour_rate wage_rate quantity
                miscellaneous_amount
      in \<lparr>d_man_hours_per_unit = py_round man_hours 4,
          d_machine_hour_rate = py_round machine_hour_rate 2,
          d_wage_rate = py_round wage_rate 2,
          d_basic_cost_per_unit = py_round (basic_cost v) 2,
          d_overheads_per_unit = py_round (overheads v) 2,
          d_profit_per_unit = py_round (profit v) 2,
          d_packing_forwarding_per_unit = py_round (packing_forwarding v) 2,
          d_unit_cost = py_round (unit_cost v) 2,
          d_total_unit_cost_with_misc = py_round (total_unit_cost_with_misc v) 2,
          d_total_cost = Some (py_round (total_cost v) 2),
          d_outsourcing_mhr = py_round (outsourcing_mhr v) 2,
          d_miscellaneous_amount = py_round miscellaneous_amount 2\<rparr>)"

section \<open>\<open>determine_duty_category\<close>: duty classification\<close>

text \<open>\<open>list.index\<close>; \<open>None\<close> stands for its \<open>ValueError\<close>.\<close>

fun index :: "'a list \<Rightarrow> 'a \<Rightarrow> nat option" where
  "index [] x = None"
| "index (y # ys) x = (if y = x then Some 0 else map_option Suc (index ys x))"

text \<open>The nested helper \<open>_bump\<close>: move \<open>steps\<close> places in its list \<open>order\<close>, clamped at
  both ends; a string outside the list counts as index 0.\<close>

definition duty_order :: "string list" where
  "duty_order = [''light'', ''medium'', ''heavy'']"

definition duty_index :: "string \<Rightarrow> nat" where
  "duty_index d = (case index duty_order d of Some i \<Rightarrow> i | None \<Rightarrow> 0)"

definition bump :: "string \<Rightarrow> int \<Rightarrow> string" where
  "bump d steps =
     (let idx = int (duty_index d)
      in duty_order ! nat (min (int (length duty_order) - 1) (max 0 (idx + steps))))"

text \<open>Lines 63 to 119: the thresholds by geometry. \<open>None\<close> when neither the rectangular nor
  the round pattern applies. The dimensions are read with \<open>the\<close> only under the guard that
  the keys are present.\<close>

definition base_by_geometry ::
  "string \<Rightarrow> (string \<rightharpoonup> real) \<Rightarrow> string \<Rightarrow> string \<Rightarrow> string option" where
  "base_by_geometry shape dimensions mat op =
     (if shape = ''rectangular'' \<and>
         list_all (\<lambda>k. dimensions k \<noteq> None) [''length'', ''breadth'', ''height''] then
        (let len = the (dimensions ''length'');
             breadth = the (dimensions ''breadth'');
             height = the (dimensions ''height'');
             max_dim = max len (max breadth height)
         in if max_dim \<le> 750 then Some ''light''
            else if max_dim \<le> 1500 then Some ''medium''
            else Some ''heavy'')
      else if shape = ''round'' \<and>
         list_all (\<lambda>k. dimensions k \<noteq> None) [''diameter'', ''length''] then
        (let diameter = the (dimensions ''diameter'');
             len = the (dimensions ''length'')
         in if op \<in> {''turning'', ''boring''} then
              (if mat = ''aluminium'' then
                 (if diameter < 80 \<and> len < 500 then Some ''light''
                  else if diameter \<le> 150 \<and> len \<le> 1000 then Some ''medium''
                  else Some ''heavy'')
               else if mat = ''steel'' then
                 (if diameter < 50 \<and> len < 200 then Some ''light''
                  else if diameter \<le> 100 \<and> len \<le> 500 then Some ''medium''
                  else Some ''heavy'')
               else if mat = ''titanium'' then
                 (if diameter < 30 \<and> len < 150 then Some ''light''
                  else if diameter \<le> 60 \<and> len \<le> 300 then Some ''medium''
                  else Some ''heavy'')
               else
                 (if diameter < 80 \<and> len < 500 then Some ''light''
                  else if diameter \<le> 150 \<and> len \<le> 1000 then Some ''medium''
                  else Some ''heavy''))
            else
              (if diameter \<le> 100 \<and> len \<le> 300 then Some ''light''
               else if diameter \<le> 300 \<and> len \<le> 1200 then Some ''medium''
               else Some ''heavy''))
      else None)"

text \<open>Lines 121 to 152: the volume heuristic used when no geometric rule applied. The
  subscripts \<open>dimensions["diameter"]\<close> raise \<open>KeyError\<close> for a missing key, in the order in
  which the source evaluates them.\<close>

definition fallback_volume :: "string \<Rightarrow> (string \<rightharpoonup> real) \<Rightarrow> py_exception + real" where
  "fallback_volume shape dimensions =
     (if shape = ''round'' then
        (case getitem dimensions ''diameter'' of
           Inl e \<Rightarrow> Inl e
         | Inr diameter \<Rightarrow>
             (case getitem dimensions ''length'' of
                Inl e \<Rightarrow> Inl e
              | Inr len \<Rightarrow> Inr (3.14159 * (diameter / 2) ^ 2 * len)))
      else
        (case getitem dimensions ''length'' of
           Inl e \<Rightarrow> Inl e
         | Inr len \<Rightarrow>
             (case getitem dimensions ''breadth'' of
                Inl e \<Rightarrow> Inl e
              | Inr breadth \<Rightarrow>
                  (case getitem dimensions ''height'' of
                     Inl e \<Rightarrow> Inl e
                   | Inr height \<Rightarrow> Inr (len * breadth * height)))))"

definition material_factor :: "string \<Rightarrow> real" where
  "material_factor mat =
     (case map_of [(''aluminium'', 1.0), (''steel'', 3.0), (''titanium'', 1.7)] mat of
        Some f \<Rightarrow> f
      | None \<Rightarrow> 1.0)"

definition operation_factor :: "string \<Rightarrow> real" where
  "operation_factor op =
     (case map_of [(''turning'', 1.0), (''milling'', 1.5), (''drilling'', 0.8),
                   (''grinding'', 1.2), (''boring'', 1.3), (''heat_treatment'', 2.0),
                   (''welding'', 1.8), (''surface_treatment'', 1.0)] op of
        Some f \<Rightarrow> f
      | None \<Rightarrow> 1.0)"

definition base_by_volume ::
  "string \<Rightarrow> (string \<rightharpoonup> real) \<Rightarrow> string \<Rightarrow> string \<Rightarrow> py_exception + string" where
  "base_by_volume shape dimensions mat op =
     (case fallback_volume shape dimensions of
        Inl e \<Rightarrow> Inl e
      | Inr volume \<Rightarrow>
          (let score = (volume / 1000000) * material_factor mat * operation_factor op
           in if score < 5 then Inr ''light''
              else if score < 20 then Inr ''medium''
              else Inr ''heavy''))"

text \<open>Lines 154 to 161: the adjustments for material and operation.\<close>

definition adjust_base :: "string \<Rightarrow> string \<Rightarrow> string \<Rightarrow> string" where
  "adjust_base mat op base =
     (let base1 =
            (if mat \<in> {''steel'', ''titanium''} then
               (let b = bump base (if base = ''light'' then 1 else 0)
                in if mat = ''titanium'' \<and> b = ''medium'' then bump b 1 else b)
             else base)
      in if op \<in> {''heat_treatment'', ''welding''} then bump base1 1 else base1)"

definition determine_duty_category ::
  "string \<Rightarrow> (string \<rightharpoonup> real) \<Rightarrow> string \<Rightarrow> string \<Rightarrow> py_exception + string" where
  "determine_duty_category shape dimensions material operation =
     (let op = lower (strip operation);
          mat = lower (strip material)
      in case (case base_by_geometry shape dimensions mat op of
                 Some b \<Rightarrow> Inr b
               | None \<Rightarrow> base_by_volume shape dimensions mat op) of
           Inl e \<Rightarrow> Inl e
         | Inr base \<Rightarrow> Inr (adjust_base mat op base))"

section \<open>Machine category, wage rate and the complete machine hour rate\<close>

definition determine_machine_category :: "string \<Rightarrow> string" where
  "determine_machine_category machine_name =
     (let name_lower = lower machine_name
      in if contains name_lower ''cnc'' \<or> contains name_lower ''precision'' then
           (if contains name_lower ''5'' \<or> contains name_lower ''five'' \<or>
               contains name_lower ''5 axis'' \<or> contains name_lower ''5-axis''
            then ''cnc_5axis'' else ''cnc_3axis'')
         else if contains name_lower ''spm'' \<or> contains name_lower ''special'' then ''spm''
         else ''conventional'')"

definition get_wage_rate :: "string \<Rightarrow> real" where
  "get_wage_rate machine_name =
     (let category = determine_machine_category machine_name;
          monthly = (if category = ''conventional'' then CONVENTIONAL_OPERATOR_MONTHLY_WAGE
                     else CNC_OPERATOR_MONTHLY_WAGE)
      in monthly / HOURS_PER_MONTH_FOR_WAGE)"

text \<open>Dividing by zero utilization hours raises \<open>ZeroDivisionError\<close>.\<close>

definition calculate_complete_machine_hour_rate ::
  "real \<Rightarrow> real \<Rightarrow> string \<Rightarrow> real option \<Rightarrow> py_exception + real" where
  "calculate_complete_machine_hour_rate investment_cost power_rating_kw machine_category
       available_hours_per_annum =
     (let available_hours = (case available_hours_per_annum of
                               None \<Rightarrow> ANNUAL_WORKING_HOURS
                             | Some h \<Rightarrow> h);
          downtime_rate = (if lower machine_category = ''conventional''
                           then CONVENTIONAL_DOWNTIME_RATE else CNC_DOWNTIME_RATE);
          utilization_hours = available_hours * (1 - downtime_rate);
          power_charges_per_hour = power_rating_kw * POWER_RATE_PER_UNIT
      in if utilization_hours = 0 then Inl ZeroDivisionError
         else
           (let depreciation_cost_per_hour =
                  (investment_cost * ANNUAL_DEPRECIATION_RATE) / utilization_hours;
                machine_utilization_cost_per_hour =
                  depreciation_cost_per_hour + power_charges_per_hour
            in Inr (machine_utilization_cost_per_hour * (1 + MAINTENANCE_RATE))))"

section \<open>The reference tables read through the database session\<close>

text \<open>
  The rows of the SQLAlchemy models \<open>OperationType\<close>, \<open>Machine\<close>, \<open>Duty\<close> and \<open>MHR\<close>. The
  cost drivers of an MHR row are text columns, possibly NULL. A session holds the four
  tables and the set of SELECT statements that currently fail: executing one of those
  raises \<open>OperationalError\<close>.
\<close>

record operation_type_row =
  ot_id :: int
  ot_operation_name :: string

record machine_row =
  mc_id :: int
  mc_name :: string
  mc_op_id :: "int option"

record duty_row =
  dt_id :: int
  dt_name :: string

record mhr_row =
  mhr_id :: int
  mhr_op_type_id :: "int option"
  mhr_duty_id :: "int option"
  mhr_machine_id :: "int option"
  mhr_investment_cost :: "string option"
  mhr_elect_power_rating :: "string option"
  mhr_elect_power_charges :: "string option"
  mhr_available_hrs_per_annum :: "string option"
  mhr_utilization_hrs_year :: "string option"
  mhr_machine_hr_rate :: "string option"

datatype db_query =
    SelectMachine
  | SelectOperationType
  | SelectDuty
  | SelectMHR
  | SelectMHRJoined

record session =
  operation_type_table :: "operation_type_row list"
  machines_table :: "machine_row list"
  duties_table :: "duty_row list"
  mhr_table :: "mhr_row list"
  failing :: "db_query set"

text \<open>SQL \<open>trim\<close> removes spaces only; SQL \<open>lower\<close> is taken on ASCII.\<close>

definition sql_trim :: "string \<Rightarrow> string" where
  "sql_trim s = rev (dropWhile (\<lambda>c. c = CHR '' '') (rev (dropWhile (\<lambda>c. c = CHR '' '') s)))"

text \<open>\<open>db.query(Machine).filter(Machine.name == machine_name).first()\<close>\<close>

definition select_machine_by_name :: "session \<Rightarrow> string \<Rightarrow> py_exception + machine_row option" where
  "select_machine_by_name db machine_name =
     (if SelectMachine \<in> failing db then Inl OperationalError
      else Inr (find (\<lambda>m. mc_name m = machine_name) (machines_table db)))"

text \<open>\<open>db.query(OperationTypeModel).filter(func.lower(func.trim(operation_name)) == key).first()\<close>\<close>

definition select_operation_type :: "session \<Rightarrow> string \<Rightarrow> py_exception + operation_type_row option" where
  "select_operation_type db key =
     (if SelectOperationType \<in> failing db then Inl OperationalError
      else Inr (find (\<lambda>ot. lower (sql_trim (ot_operation_name ot)) = key) (operation_type_table db)))"

text \<open>\<open>db.query(Duty).all()\<close>\<close>

definition select_duties :: "session \<Rightarrow> py_exception + duty_row list" where
  "select_duties db =
     (if SelectDuty \<in> failing db then Inl OperationalError else Inr (duties_table db))"

text \<open>\<open>db.query(MHR).filter(op_type_id == .., duty_id == .., machine_id == ..).first()\<close>\<close>

definition select_mhr :: "session \<Rightarrow> int \<Rightarrow> int \<Rightarrow> int \<Rightarrow> py_exception + mhr_row option" where
  "select_mhr db op_id du_id m_id =
     (if SelectMHR \<in> failing db then Inl OperationalError
      else Inr (find (\<lambda>r. mhr_op_type_id r = Some op_id \<and> mhr_duty_id r = Some du_id \<and>
                          mhr_machine_id r = Some m_id) (mhr_table db)))"

text \<open>The query of lines 484 to 491: MHR rows inner-joined with their operation type, duty
  and machine, filtered by operation name. The relationship attributes \<open>rec.operation_type\<close>,
  \<open>rec.duty\<close> and \<open>rec.machine\<close> read afterwards are the joined rows.\<close>

type_synonym candidate = "mhr_row \<times> operation_type_row \<times> duty_row \<times> machine_row"

definition select_mhr_joined :: "session \<Rightarrow> string \<Rightarrow> py_exception + candidate list" where
  "select_mhr_joined db key =
     (if SelectMHRJoined \<in> failing db then Inl OperationalError
      else Inr [(r, ot, du, m).
                  r \<leftarrow> mhr_table db,
                  ot \<leftarrow> operation_type_table db, mhr_op_type_id r = Some (ot_id ot),
                  du \<leftarrow> duties_table db, mhr_duty_id r = Some (dt_id du),
                  m \<leftarrow> machines_table db, mhr_machine_id r = Some (mc_id m),
                  lower (sql_trim (ot_operation_name ot)) = key])"

section \<open>\<open>get_machine_hour_rate\<close>: the machine hour rate resolver\<close>

text \<open>
  Python's \<open>float(s)\<close> on a string is the parameter \<open>float\<close> of the functions below
  (\<open>None\<close> for its \<open>ValueError\<close>): nothing proved here depends on its grammar.
  \<open>float_decimal\<close> is the instance for plain decimal numerals, used in examples.
\<close>

definition digit_value :: "char \<Rightarrow> int option" where
  "digit_value c = map_of (zip ''0123456789'' [0, 1, 2, 3, 4, 5, 6, 7, 8, 9]) c"

fun digits_value :: "int \<Rightarrow> string \<Rightarrow> int option" where
  "digits_value acc [] = Some acc"
| "digits_value acc (c # cs) =
     (case digit_value c of None \<Rightarrow> None | Some d \<Rightarrow> digits_value (10 * acc + d) cs)"

definition unsigned_decimal :: "string \<Rightarrow> real option" where
  "unsigned_decimal s =
     (let whole = takeWhile (\<lambda>c. c \<noteq> CHR ''.'') s;
          frac = drop 1 (dropWhile (\<lambda>c. c \<noteq> CHR ''.'') s)
      in if whole = [] \<and> frac = [] then None
         else (case (digits_value 0 whole, digits_value 0 frac) of
                 (Some w, Some f) \<Rightarrow> Some (of_int w + of_int f / 10 ^ length frac)
               | _ \<Rightarrow> None))"

definition float_decimal :: "string \<Rightarrow> real option" where
  "float_decimal s =
     (case strip s of
        [] \<Rightarrow> None
      | c # cs \<Rightarrow>
          if c = CHR ''-'' then map_option uminus (unsigned_decimal cs)
          else if c = CHR ''+'' then unsigned_decimal cs
          else unsigned_decimal (c # cs))"

text \<open>The nested helpers \<open>_to_float\<close> and \<open>_to_float_or_none\<close> (they compute the same).\<close>

definition to_float :: "(string \<Rightarrow> real option) \<Rightarrow> string option \<Rightarrow> real option" where
  "to_float float v = (case v of None \<Rightarrow> None | Some s \<Rightarrow> float (strip s))"

definition to_float_or_none :: "(string \<Rightarrow> real option) \<Rightarrow> string option \<Rightarrow> real option" where
  "to_float_or_none float v = (case v of None \<Rightarrow> None | Some s \<Rightarrow> float (strip s))"

text \<open>The nested helper \<open>_calculate_mhr_from_record\<close>. The utilization hours are never zero
  here: the available hours are positive and the downtime rate is below one.\<close>

definition calculate_mhr_from_record ::
  "(string \<Rightarrow> real option) \<Rightarrow> string \<Rightarrow> mhr_row \<Rightarrow> real option" where
  "calculate_mhr_from_record float machine_name rec =
     (let inv_opt = to_float float (mhr_investment_cost rec);
          kw_opt = to_float float (mhr_elect_power_rating rec);
          avail_opt = to_float float (mhr_available_hrs_per_annum rec);
          category = determine_machine_category machine_name
      in case (inv_opt, kw_opt) of
           (Some invest, Some kw) \<Rightarrow>
             (let avail = (case avail_opt of
                             None \<Rightarrow> ANNUAL_WORKING_HOURS
                           | Some a \<Rightarrow> if a \<le> 0 then ANNUAL_WORKING_HOURS else a);
                  downtime_rate = (if lower category = ''conventional''
                                   then CONVENTIONAL_DOWNTIME_RATE else CNC_DOWNTIME_RATE);
                  utilization_hours = avail * (1 - downtime_rate);
                  power_charges_per_hour = kw * POWER_RATE_PER_UNIT;
                  depreciation_cost_per_hour =
                    (invest * ANNUAL_DEPRECIATION_RATE) / utilization_hours;
                  machine_utilization_cost_per_hour =
                    depreciation_cost_per_hour + power_charges_per_hour
              in Some machine_utilization_cost_per_hour)
         | _ \<Rightarrow> None)"

text \<open>The nested helper \<open>_category_bucket\<close>.\<close>

definition category_bucket :: "string \<Rightarrow> string" where
  "category_bucket cat =
     (let c = lower (strip cat)
      in if startswith c ''cnc'' then ''cnc''
         else if c = ''spm'' then ''spm''
         else ''conventional'')"

text \<open>The category bucket in the words of the specification, to be compared with
  \<open>category_bucket\<close>: the machine category collapsed to \<open>conventional\<close> or \<open>cnc\<close>, with \<open>spm\<close>
  counted as \<open>conventional\<close>.\<close>

definition spec_category_bucket :: "string \<Rightarrow> string" where
  "spec_category_bucket cat =
     (if startswith (lower (strip cat)) ''cnc'' then ''cnc'' else ''conventional'')"

text \<open>The nested helper \<open>_methodology_inputs\<close> and its table of
  (investment, kW, available hours, downtime rate).\<close>

definition methodology_table :: "((string \<times> string \<times> string) \<times> (real \<times> real \<times> real \<times> real)) list" where
  "methodology_table =
     [((''turning'', ''light'', ''conventional''), (2000000, 5, 3600, CONVENTIONAL_DOWNTIME_RATE)),
      ((''turning'', ''light'', ''cnc''), (5000000, 12, 4500, CNC_DOWNTIME_RATE)),
      ((''turning'', ''medium'', ''conventional''), (3000000, 8, 3600, CONVENTIONAL_DOWNTIME_RATE)),
      ((''turning'', ''medium'', ''cnc''), (6000000, 15, 4500, CNC_DOWNTIME_RATE)),
      ((''turning'', ''heavy'', ''conventional''), (5000000, 12, 3600, CONVENTIONAL_DOWNTIME_RATE)),
      ((''turning'', ''heavy'', ''cnc''), (10000000, 20, 4500, CNC_DOWNTIME_RATE)),
      ((''milling'', ''light'', ''conventional''), (3000000, 8, 3600, CONVENTIONAL_DOWNTIME_RATE)),
      ((''milling'', ''light'', ''cnc''), (6000000, 15, 4500, CNC_DOWNTIME_RATE)),
      ((''milling'', ''medium'', ''conventional''), (5000000, 10, 3600, CONVENTIONAL_DOWNTIME_RATE)),
      ((''milling'', ''medium'', ''cnc''), (7000000, 20, 4500, CNC_DOWNTIME_RATE)),
      ((''milling'', ''heavy'', ''conventional''), (6000000, 15, 3600, CONVENTIONAL_DOWNTIME_RATE)),
      ((''milling'', ''heavy'', ''cnc''), (12000000, 30, 4500, CNC_DOWNTIME_RATE))]"

definition methodology_inputs ::
  "string \<Rightarrow> string \<Rightarrow> string \<Rightarrow> (real \<times> real \<times> real \<times> real) option" where
  "methodology_inputs op du machine_cat =
     (let op_key = lower (strip op);
          du_key = lower (strip du);
          cat_key = category_bucket machine_cat
      in map_of methodology_table (op_key, du_key, cat_key))"

text \<open>The nested helper \<open>_norm\<close>.\<close>

definition norm_str :: "string option \<Rightarrow> string" where
  "norm_str s =
     (case s of
        None \<Rightarrow> []
      | Some s \<Rightarrow>
          (let out = lower (strip s);
               out = replace_char (CHR ''_'') (CHR '' '') out;
               out = replace_char (CHR ''-'') (CHR '' '') out;
               out = join '' '' (split out)
           in if endswith out '' duty'' then take (length out - length '' duty'') out
              else out))"

text \<open>The nested helper \<open>_resolve_duty_id\<close>; it catches the failure of its own query.\<close>

definition resolve_duty_id :: "session \<Rightarrow> string \<Rightarrow> int option" where
  "resolve_duty_id db d =
     (let d_norm = norm_str (Some d)
      in if d_norm = [] then None
         else (case select_duties db of
                 Inl e \<Rightarrow> None
               | Inr duties \<Rightarrow>
                   map_option dt_id (find (\<lambda>du. norm_str (Some (dt_name du)) = d_norm) duties)))"

text \<open>Lines 466 to 471 and again 518 to 523: the rate computed from the cost drivers of a
  record, else the rate stored in it.\<close>

definition computed_or_configured ::
  "(string \<Rightarrow> real option) \<Rightarrow> string \<Rightarrow> mhr_row \<Rightarrow> real option" where
  "computed_or_configured float machine_name rec =
     (case calculate_mhr_from_record float machine_name rec of
        Some computed \<Rightarrow> Some computed
      | None \<Rightarrow> to_float_or_none float (mhr_machine_hr_rate rec))"

text \<open>
  The body of \<open>get_machine_hour_rate\<close> is two \<open>try\<close> blocks followed by a \<open>raise\<close>. Each
  part below yields \<open>Inr (Some rate)\<close> where the source returns \<open>rate\<close>, \<open>Inr None\<close> where
  control falls out of the part, and \<open>Inl e\<close> where \<open>e\<close> is raised inside it.

  Tier 1, lines 433 to 441: the static methodology table.
\<close>

definition methodology_rate :: "string \<Rightarrow> string \<Rightarrow> string \<Rightarrow> py_exception + real option" where
  "methodology_rate operation duty machine_name =
     (let machine_category = determine_machine_category machine_name
      in case methodology_inputs operation duty machine_category of
           None \<Rightarrow> Inr None
         | Some (invest, kw, avail_hours, downtime_rate) \<Rightarrow>
             (let utilization_hours = avail_hours * (1 - downtime_rate);
                  power_charges_per_hour = kw * POWER_RATE_PER_UNIT
              in if utilization_hours = 0 then Inl ZeroDivisionError
                 else
                   (let depreciation_cost_per_hour =
                          (invest * ANNUAL_DEPRECIATION_RATE) / utilization_hours
                    in Inr (Some (depreciation_cost_per_hour + power_charges_per_hour)))))"

text \<open>Tier 2, lines 443 to 471: the configuration record found by its three ids.\<close>

definition exact_config_rate ::
  "(string \<Rightarrow> real option) \<Rightarrow> string \<Rightarrow> string \<Rightarrow> string \<Rightarrow> session \<Rightarrow>
   int option \<Rightarrow> int option \<Rightarrow> int option \<Rightarrow> py_exception + real option" where
  "exact_config_rate float operation duty machine_name db machine_id op_type_id duty_id =
     (case (if op_type_id = None \<and> operation \<noteq> [] then
              (case select_operation_type db (lower (strip operation)) of
                 Inl e \<Rightarrow> Inl e
               | Inr op_row \<Rightarrow> Inr (map_option ot_id op_row))
            else Inr op_type_id) of
        Inl e \<Rightarrow> Inl e
      | Inr op_id \<Rightarrow>
          (let du_id = (if duty_id \<noteq> None then duty_id else resolve_duty_id db duty);
               m_id = machine_id
           in case (op_id, du_id, m_id) of
                (Some op_id, Some du_id, Some m_id) \<Rightarrow>
                  (case select_mhr db op_id du_id m_id of
                     Inl e \<Rightarrow> Inl e
                   | Inr None \<Rightarrow> Inr None
                   | Inr (Some rec) \<Rightarrow> Inr (computed_or_configured float machine_name rec))
              | _ \<Rightarrow> Inr None))"

text \<open>Tier 3, lines 478 to 523: the scan of the joined configuration records. The loop keeps
  the best candidate so far and its score, and stops at the first score 2.\<close>

fun scan_candidates ::
  "string \<Rightarrow> string \<Rightarrow> string \<Rightarrow> candidate list \<Rightarrow> candidate option \<Rightarrow> int \<Rightarrow> candidate option" where
  "scan_candidates op_norm duty_norm machine_norm [] best best_score = best"
| "scan_candidates op_norm duty_norm machine_norm ((rec, ot, du, m) # rest) best best_score =
     (let rec_op = norm_str (Some (ot_operation_name ot));
          rec_duty = norm_str (Some (dt_name du))
      in if rec_op \<noteq> op_norm \<or> rec_duty \<noteq> duty_norm then
           scan_candidates op_norm duty_norm machine_norm rest best best_score
         else
           (let rec_machine = norm_str (Some (mc_name m));
                score = (if rec_machine = machine_norm then 2
                         else if rec_machine \<noteq> [] \<and> machine_norm \<noteq> [] \<and>
                                 (contains machine_norm rec_machine \<or>
                                  contains rec_machine machine_norm) then 1
                         else 0);
                best1 = (if score > best_score then Some (rec, ot, du, m) else best);
                best_score1 = (if score > best_score then score else best_score)
            in if best_score1 = 2 then best1
               else scan_candidates op_norm duty_norm machine_norm rest best1 best_score1))"

definition normalized_scan_rate ::
  "(string \<Rightarrow> real option) \<Rightarrow> string \<Rightarrow> string \<Rightarrow> string \<Rightarrow> session \<Rightarrow>
   py_exception + real option" where
  "normalized_scan_rate float operation duty machine_name db =
     (let op_norm = norm_str (Some operation);
          duty_norm = norm_str (Some duty);
          machine_norm = norm_str (Some machine_name)
      in case select_mhr_joined db (lower (strip operation)) of
           Inl e \<Rightarrow> Inl e
         | Inr candidates \<Rightarrow>
             (case scan_candidates op_norm duty_norm machine_norm candidates None (- 1) of
                None \<Rightarrow> Inr None
              | Some (rec, ot, du, m) \<Rightarrow> Inr (computed_or_configured float machine_name rec)))"

definition MHR_NOT_CONFIGURED :: string where
  "MHR_NOT_CONFIGURED =
     ''MHR not configured for the selected operation, duty, and machine. '' @
     ''Please add a matching row in the MHR configuration table.''"

text \<open>The first \<open>try\<close> block holds tiers 1 and 2, the second tier 3; \<open>except Exception: pass\<close>
  turns whatever is raised inside a block into falling out of it.\<close>

definition first_try_block ::
  "(string \<Rightarrow> real option) \<Rightarrow> string \<Rightarrow> string \<Rightarrow> string \<Rightarrow> session \<Rightarrow>
   int option \<Rightarrow> int option \<Rightarrow> int option \<Rightarrow> py_exception + real option" where
  "first_try_block float operation duty machine_name db machine_id op_type_id duty_id =
     (case methodology_rate operation duty machine_name of
        Inl e \<Rightarrow> Inl e
      | Inr (Some machine_hour_rate) \<Rightarrow> Inr (Some machine_hour_rate)
      | Inr None \<Rightarrow>
          exact_config_rate float operation duty machine_name db machine_id op_type_id duty_id)"

definition get_machine_hour_rate ::
  "(string \<Rightarrow> real option) \<Rightarrow> string \<Rightarrow> string \<Rightarrow> string \<Rightarrow> session \<Rightarrow>
   int option \<Rightarrow> int option \<Rightarrow> int option \<Rightarrow> py_exception + real" where
  "get_machine_hour_rate float operation duty machine_name db machine_id op_type_id duty_id =
     (case first_try_block float operation duty machine_name db machine_id op_type_id duty_id of
        Inr (Some rate) \<Rightarrow> Inr rate
      | _ \<Rightarrow>
          (case normalized_scan_rate float operation duty machine_name db of
             Inr (Some rate) \<Rightarrow> Inr rate
           | _ \<Rightarrow> Inl (ValueError MHR_NOT_CONFIGURED)))"

text \<open>\<open>get_machine_hour_rate_with_fallback\<close> passes no ids and catches \<open>ValueError\<close> only.\<close>

definition get_machine_hour_rate_with_fallback ::
  "(string \<Rightarrow> real option) \<Rightarrow> string \<Rightarrow> string \<Rightarrow> string \<Rightarrow> session \<Rightarrow> py_exception + real" where
  "get_machine_hour_rate_with_fallback float operation duty machine_name db =
     (case get_machine_hour_rate float operation duty machine_name db None None None of
        Inr rate \<Rightarrow> Inr rate
      | Inl (ValueError msg) \<Rightarrow>
          (let machine_category = determine_machine_category machine_name;
               investment_cost = (if machine_category = ''conventional'' then 1000000
                                  else if machine_category = ''cnc_3axis'' then 3000000
                                  else 5000000);
               power_rating_kw = (if machine_category = ''conventional'' then 15
                                  else if machine_category = ''cnc_3axis'' then 20
                                  else 25)
           in calculate_complete_machine_hour_rate investment_cost power_rating_kw
                machine_category None)
      | Inl e \<Rightarrow> Inl e)"

section \<open>\<open>calculate_nrc_amortization\<close> and \<open>calculate_material_cost\<close>\<close>

record nrc_dict =
  n_total_nrc :: real
  n_nrc_per_unit :: real
  n_amortization_quantity :: int
  n_tooling_cost :: real
  n_development_cost :: real
  n_cnc_programming_cost :: real
  n_special_process_cost :: real
  n_other_nrc_cost :: real

text \<open>\<open>amortize_over_quantity if amortize_over_quantity else ordered_quantity\<close>: an \<open>int\<close> is
  false exactly when it is zero.\<close>

definition calculate_nrc_amortization ::
  "real \<Rightarrow> real \<Rightarrow> real \<Rightarrow> real \<Rightarrow> real \<Rightarrow> int \<Rightarrow> int option \<Rightarrow> nrc_dict" where
  "calculate_nrc_amortization tooling_cost development_cost cnc_programming_cost
       special_process_cost other_nrc_cost ordered_quantity amortize_over_quantity =
     (let total_nrc = (tooling_cost + development_cost + cnc_programming_cost +
                       special_process_cost + other_nrc_cost);
          amortization_quantity =
            (case amortize_over_quantity of
               None \<Rightarrow> ordered_quantity
             | Some n \<Rightarrow> if n \<noteq> 0 then n else ordered_quantity);
          nrc_per_unit = (if amortization_quantity > 0
                          then total_nrc / of_int amortization_quantity else 0)
      in \<lparr>n_total_nrc = py_round total_nrc 2,
          n_nrc_per_unit = py_round nrc_per_unit 2,
          n_amortization_quantity = amortization_quantity,
          n_tooling_cost = py_round tooling_cost 2,
          n_development_cost = py_round development_cost 2,
          n_cnc_programming_cost = py_round cnc_programming_cost 2,
          n_special_process_cost = py_round special_process_cost 2,
          n_other_nrc_cost = py_round other_nrc_cost 2\<rparr>)"

text \<open>The \<open>dimensions\<close> of the material cost request are an unvalidated JSON object, so the
  values of the dict are arbitrary: a number, a string, or something \<open>float()\<close> rejects with
  \<open>TypeError\<close>.\<close>

datatype py_value = PyNum real | PyStr string | PyOther

definition float_of_value :: "(string \<Rightarrow> real option) \<Rightarrow> py_value \<Rightarrow> py_exception + real" where
  "float_of_value float v =
     (case v of
        PyNum x \<Rightarrow> Inr x
      | PyStr s \<Rightarrow> (case float s of
                      None \<Rightarrow> Inl (ValueError (''could not convert string to float''))
                    | Some x \<Rightarrow> Inr x)
      | PyOther \<Rightarrow> Inl TypeError)"

record material_dict =
  m_material_cost_per_unit :: real
  m_material_weight_kg :: real
  m_volume_cm3 :: "real option"
  m_density_g_cm3 :: "real option"
  m_is_free_issue :: bool

definition densities :: "(string \<times> real) list" where
  "densities = [(''aluminium'', 2.70), (''steel'', 7.85), (''titanium'', 4.51),
                (''copper'', 8.96), (''brass'', 8.50)]"

text \<open>Lines 651 to 661: the volume by shape; the values are converted in source order.\<close>

definition material_volume_mm3 ::
  "(string \<Rightarrow> real option) \<Rightarrow> (string \<rightharpoonup> py_value) \<Rightarrow> string \<Rightarrow> py_exception + real" where
  "material_volume_mm3 float dimensions shape =
     (if shape = ''round'' \<and>
         list_all (\<lambda>k. dimensions k \<noteq> None) [''diameter'', ''length''] then
        (case float_of_value float (the (dimensions ''diameter'')) of
           Inl e \<Rightarrow> Inl e
         | Inr diameter \<Rightarrow>
             (case float_of_value float (the (dimensions ''length'')) of
                Inl e \<Rightarrow> Inl e
              | Inr len \<Rightarrow> Inr (3.14159 * (diameter / 2) ^ 2 * len)))
      else if shape = ''rectangular'' \<and>
         list_all (\<lambda>k. dimensions k \<noteq> None) [''length'', ''breadth'', ''height''] then
        (case float_of_value float (the (dimensions ''length'')) of
           Inl e \<Rightarrow> Inl e
         | Inr len \<Rightarrow>
             (case float_of_value float (the (dimensions ''breadth'')) of
                Inl e \<Rightarrow> Inl e
              | Inr breadth \<Rightarrow>
                  (case float_of_value float (the (dimensions ''height'')) of
                     Inl e \<Rightarrow> Inl e
                   | Inr height \<Rightarrow> Inr (len * breadth * height))))
      else Inr 0)"

definition calculate_material_cost ::
  "(string \<Rightarrow> real option) \<Rightarrow> string \<Rightarrow> (string \<rightharpoonup> py_value) \<Rightarrow> string \<Rightarrow> real \<Rightarrow> bool \<Rightarrow>
   py_exception + material_dict" where
  "calculate_material_cost float material dimensions shape material_cost_per_kg
       is_hal_free_issue =
     (if is_hal_free_issue then
        Inr \<lparr>m_material_cost_per_unit = 0, m_material_weight_kg = 0, m_volume_cm3 = None,
             m_density_g_cm3 = None, m_is_free_issue = True\<rparr>
      else
        (case material_volume_mm3 float dimensions shape of
           Inl e \<Rightarrow> Inl e
         | Inr volume_mm3 \<Rightarrow>
             (let volume_cm3 = volume_mm3 / 1000;
                  density = (case map_of densities (lower material) of
                               Some d \<Rightarrow> d
                             | None \<Rightarrow> 7.85);
                  weight_kg = (volume_cm3 * density) / 1000;
                  material_cost_per_unit = weight_kg * material_cost_per_kg
              in Inr \<lparr>m_material_cost_per_unit = py_round material_cost_per_unit 2,
                      m_material_weight_kg = py_round weight_kg 3,
                      m_volume_cm3 = Some (py_round volume_cm3 3),
                      m_density_g_cm3 = Some density,
                      m_is_free_issue = False\<rparr>)))"

section \<open>The request schema and its dimension validator\<close>

datatype MaterialType = ALUMINIUM | STEEL | TITANIUM

fun material_value :: "MaterialType \<Rightarrow> string" where
  "material_value ALUMINIUM = ''aluminium''"
| "material_value STEEL = ''steel''"
| "material_value TITANIUM = ''titanium''"

datatype OperationType =
    TURNING | MILLING | DRILLING | GRINDING | BORING | HEAT_TREATMENT | WELDING
  | SURFACE_TREATMENT

fun operation_value :: "OperationType \<Rightarrow> string" where
  "operation_value TURNING = ''turning''"
| "operation_value MILLING = ''milling''"
| "operation_value DRILLING = ''drilling''"
| "operation_value GRINDING = ''grinding''"
| "operation_value BORING = ''boring''"
| "operation_value HEAT_TREATMENT = ''heat_treatment''"
| "operation_value WELDING = ''welding''"
| "operation_value SURFACE_TREATMENT = ''surface_treatment''"

datatype DutyCategory = LIGHT | MEDIUM | HEAVY

fun duty_value :: "DutyCategory \<Rightarrow> string" where
  "duty_value LIGHT = ''light''"
| "duty_value MEDIUM = ''medium''"
| "duty_value HEAVY = ''heavy''"

text \<open>\<open>ComponentDimensions\<close>: \<open>length\<close> is required, the other three are optional; every
  field that is present is constrained by \<open>Field(gt=0)\<close>.\<close>

record ComponentDimensions =
  dim_diameter :: "real option"
  dim_length :: real
  dim_breadth :: "real option"
  dim_height :: "real option"

definition field_gt_0 :: "real option \<Rightarrow> bool" where
  "field_gt_0 f = (case f of None \<Rightarrow> True | Some x \<Rightarrow> 0 < x)"

definition component_dimensions_valid :: "ComponentDimensions \<Rightarrow> bool" where
  "component_dimensions_valid v =
     (field_gt_0 (dim_diameter v) \<and> 0 < dim_length v \<and> field_gt_0 (dim_breadth v) \<and>
      field_gt_0 (dim_height v))"

text \<open>A field name between single quotes, as the messages of the validator write it.\<close>

definition quoted :: "string \<Rightarrow> string" where
  "quoted s = [CHR 0x27] @ s @ [CHR 0x27]"

text \<open>The common beginning \<open>For {operation.value} operation, \<close> of the messages.\<close>

definition for_operation :: "OperationType \<Rightarrow> string" where
  "for_operation operation = ''For '' @ operation_value operation @ '' operation, ''"

text \<open>The field validator of \<open>CostEstimationRequest.dimensions\<close>. Its first argument is
  \<open>info.data.get('operation_type')\<close>, absent when that field failed its own validation.\<close>

definition validate_dimensions_by_operation ::
  "OperationType option \<Rightarrow> ComponentDimensions \<Rightarrow> py_exception + ComponentDimensions" where
  "validate_dimensions_by_operation operation_opt v =
     (case operation_opt of
        None \<Rightarrow> Inr v
      | Some operation \<Rightarrow>
          (let round_operations = [''turning'', ''boring''];
               rectangular_operations = [''milling'', ''grinding'', ''surface_treatment'']
           in if operation_value operation \<in> set round_operations then
                (if dim_diameter v = None then
                   Inl (ValueError (for_operation operation @ quoted ''diameter'' @
                     '' is required''))
                 else if dim_breadth v \<noteq> None \<or> dim_height v \<noteq> None then
                   Inl (ValueError (for_operation operation @ ''only '' @ quoted ''diameter'' @
                     '' and '' @ quoted ''length'' @ '' are needed (round part)''))
                 else Inr v)
              else if operation_value operation \<in> set rectangular_operations then
                (if dim_breadth v = None \<or> dim_height v = None then
                   Inl (ValueError (for_operation operation @ quoted ''length'' @ '', '' @
                     quoted ''breadth'' @ '', and '' @ quoted ''height'' @ '' are required''))
                 else if dim_diameter v \<noteq> None then
                   Inl (ValueError (for_operation operation @ ''only '' @ quoted ''length'' @
                     '', '' @ quoted ''breadth'' @ '', and '' @ quoted ''height'' @
                     '' are needed (rectangular part)''))
                 else Inr v)
              else
                (let has_round = (dim_diameter v \<noteq> None);
                     has_rectangular = (dim_breadth v \<noteq> None \<and> dim_height v \<noteq> None)
                 in if \<not> (has_round \<or> has_rectangular) then
                      Inl (ValueError (for_operation operation @
                        ''provide either (diameter + length) for round parts OR '' @
                        ''(length + breadth + height) for rectangular parts''))
                    else if has_round \<and> has_rectangular then
                      Inl (ValueError (for_operation operation @
                        ''provide EITHER round dimensions (diameter + length) OR '' @
                        ''rectangular dimensions (length + breadth + height), not both''))
                    else Inr v)))"

record CostEstimationRequest =
  rq_material :: MaterialType
  rq_operation_type :: OperationType
  rq_dimensions :: ComponentDimensions
  rq_machine_name :: string
  rq_man_hours_per_unit :: real
  rq_duty_category :: "DutyCategory option"
  rq_miscellaneous_amount :: "real option"

section \<open>The route \<open>POST /cost-estimation/calculate\<close>\<close>

record machine_details =
  md_id :: int
  md_name :: string
  md_operation_type_id :: "int option"

definition get_machine_details :: "string \<Rightarrow> session \<Rightarrow> py_exception + machine_details" where
  "get_machine_details machine_name db =
     (case select_machine_by_name db machine_name of
        Inl e \<Rightarrow> Inl e
      | Inr None \<Rightarrow>
          Inl (ValueError (''Machine with name '' @ quoted machine_name @ '' not found''))
      | Inr (Some machine) \<Rightarrow>
          Inr \<lparr>md_id = mc_id machine, md_name = mc_name machine,
               md_operation_type_id = mc_op_id machine\<rparr>)"

text \<open>What the route answers instead of a response: an \<open>HTTPException\<close> with its status code
  and detail, or an exception it does not handle.\<close>

datatype http_detail = Detail string | StrOf py_exception

datatype route_error = HTTPException nat http_detail | Unhandled py_exception

text \<open>The response, without the \<open>calculation_steps\<close> texts.\<close>

record CostEstimationResponse =
  rs_duty_category :: string
  rs_selected_machine :: machine_details
  rs_machine_category :: string
  rs_shape :: string
  rs_dimensions :: "string \<rightharpoonup> real"
  rs_volume :: real
  rs_cost_breakdown :: cost_dict
  rs_material :: MaterialType
  rs_operation_type :: OperationType

text \<open>Lines 102 to 125 of the route: the shape, the dimensions dict and the volume.\<close>

definition detect_shape ::
  "ComponentDimensions \<Rightarrow> route_error + (string \<times> (string \<rightharpoonup> real) \<times> real)" where
  "detect_shape dims =
     (case dim_diameter dims of
        Some diameter \<Rightarrow>
          Inr (''round'',
               [''diameter'' \<mapsto> diameter, ''length'' \<mapsto> dim_length dims],
               3.14159 * (diameter / 2) ^ 2 * dim_length dims)
      | None \<Rightarrow>
          (case (dim_breadth dims, dim_height dims) of
             (Some breadth, Some height) \<Rightarrow>
               Inr (''rectangular'',
                    [''length'' \<mapsto> dim_length dims, ''breadth'' \<mapsto> breadth,
                     ''height'' \<mapsto> height],
                    dim_length dims * breadth * height)
           | _ \<Rightarrow>
               Inl (HTTPException 400 (Detail
                 (''Invalid dimensions. Provide either (diameter + length) for round parts '' @
                  ''OR (length + breadth + height) for rectangular parts'')))))"

definition calculate_cost_estimation ::
  "(string \<Rightarrow> real option) \<Rightarrow> CostEstimationRequest \<Rightarrow> session \<Rightarrow>
   route_error + CostEstimationResponse" where
  "calculate_cost_estimation float request db =
     (case get_machine_details (rq_machine_name request) db of
        Inl (ValueError msg) \<Rightarrow> Inl (HTTPException 404 (Detail msg))
      | Inl e \<Rightarrow> Inl (Unhandled e)
      | Inr details \<Rightarrow>
          (let machine_name = md_name details;
               machine_category = determine_machine_category machine_name
           in case detect_shape (rq_dimensions request) of
                Inl e \<Rightarrow> Inl e
              | Inr (shape, dimensions_dict, volume) \<Rightarrow>
                  (case (case rq_duty_category request of
                           Some d \<Rightarrow> Inr (duty_value d)
                         | None \<Rightarrow>
                             determine_duty_category shape dimensions_dict
                               (material_value (rq_material request))
                               (operation_value (rq_operation_type request))) of
                     Inl e \<Rightarrow> Inl (Unhandled e)
                   | Inr duty \<Rightarrow>
                       (case get_machine_hour_rate_with_fallback float
                               (operation_value (rq_operation_type request)) duty
                               machine_name db of
                          Inl e \<Rightarrow> Inl (HTTPException 400 (StrOf e))
                        | Inr machine_hour_rate \<Rightarrow>
                            (let wage_rate = get_wage_rate machine_name;
                                 man_hours = rq_man_hours_per_unit request;
                                 misc = (case rq_miscellaneous_amount request of
                                           None \<Rightarrow> 0
                                         | Some a \<Rightarrow> a);
                                 cost_breakdown =
                                   calculate_costs man_hours machine_hour_rate wage_rate 1 misc
                             in Inr \<lparr>rs_duty_category = duty,
                                     rs_selected_machine = details,
                                     rs_machine_category = machine_category,
                                     rs_shape = shape,
                                     rs_dimensions = dimensions_dict,
                                     rs_volume = py_round volume 2,
                                     rs_cost_breakdown = cost_breakdown\<lparr>d_total_cost := None\<rparr>,
                                     rs_material = rq_material request,
                                     rs_operation_type = rq_operation_type request\<rparr>)))))"

section \<open>Facts about the cost formula\<close>

lemmas service_constants =
  CONVENTIONAL_OPERATOR_MONTHLY_WAGE_def CNC_OPERATOR_MONTHLY_WAGE_def
  HOURS_PER_MONTH_FOR_WAGE_def ANNUAL_DEPRECIATION_RATE_def MAINTENANCE_RATE_def
  POWER_RATE_PER_UNIT_def CONVENTIONAL_DOWNTIME_RATE_def CNC_DOWNTIME_RATE_def
  ANNUAL_WORKING_HOURS_def

text \<open>
  C1. For all man-hours \<open>A\<close>, machine hour rate \<open>B\<close>, wage rate \<open>C\<close>, quantity \<open>q\<close> and
  miscellaneous amount \<open>m\<close>, \<open>calculate_costs\<close> computes, before the rounding of its output,
  the basic cost \<open>D = A * (B + C)\<close>, the overheads \<open>OH = C * A\<close>, the profit
  \<open>0.10 * (D + OH)\<close>, packing and forwarding \<open>0.02 * D\<close>, the unit cost as the sum of the
  four, the unit cost with miscellaneous amount \<open>unit + m\<close>, the total cost as that times \<open>q\<close>,
  and the outsourcing rate \<open>B + 2 * C\<close>; the returned dict holds these values rounded to two
  decimals (the man-hours to four).
\<close>

theorem calculate_costs_formulas:
  "(let D = A * (B + C);
        OH = C * A;
        Profit = 0.10 * (D + OH);
        PF = 0.02 * D;
        unit = D + OH + Profit + PF;
        with_misc = unit + m;
        total = with_misc * of_int q
    in calculate_costs_locals A B C q m =
         \<lparr>basic_cost = D, overheads = OH, profit = Profit, packing_forwarding = PF,
          unit_cost = unit, total_unit_cost_with_misc = with_misc, total_cost = total,
          outsourcing_mhr = B + 2 * C\<rparr> \<and>
       calculate_costs A B C q m =
         \<lparr>d_man_hours_per_unit = py_round A 4,
          d_machine_hour_rate = py_round B 2,
          d_wage_rate = py_round C 2,
          d_basic_cost_per_unit = py_round D 2,
          d_overheads_per_unit = py_round OH 2,
          d_profit_per_unit = py_round Profit 2,
          d_packing_forwarding_per_unit = py_round PF 2,
          d_unit_cost = py_round unit 2,
          d_total_unit_cost_with_misc = py_round with_misc 2,
          d_total_cost = Some (py_round total 2),
          d_outsourcing_mhr = py_round (B + 2 * C) 2,
          d_miscellaneous_amount = py_round m 2\<rparr>)"
  by (simp add: calculate_costs_def calculate_costs_locals_def Let_def)

section \<open>Facts about the NRC amortization and the material cost\<close>

lemma py_round_zero: "py_round 0 n = 0"
  by (simp add: py_round_def)

text \<open>
  C5, as claimed, promises \<open>total_nrc / ordered_quantity\<close> whenever the amortization quantity
  is not both supplied and positive. With the five components of the NRC scenario, 100
  ordered units and the amortization quantity \<open>-5\<close>, the function returns 0 per unit and
  not 1050.
\<close>

theorem nrc_amortization_counterexample:
  "n_nrc_per_unit (calculate_nrc_amortization 50000 25000 15000 10000 5000 100 (Some (- 5)))
     \<noteq> py_round ((50000 + 25000 + 15000 + 10000 + 5000) / of_int 100) 2"
  by (simp add: calculate_nrc_amortization_def py_round_def Let_def)

text \<open>
  C5, amended. \<open>calculate_nrc_amortization\<close> returns \<open>total_nrc\<close> as the sum of the five
  components. The divisor is \<open>amortize_over_quantity\<close> whenever that is supplied and not
  zero, otherwise \<open>ordered_quantity\<close>. \<open>nrc_per_unit\<close> is \<open>total_nrc\<close> divided by the divisor
  when the divisor is positive and 0 otherwise: a supplied negative amortization quantity
  gives 0 and does not fall back on the ordered quantity. All monetary outputs are rounded
  to two decimals.
\<close>

theorem calculate_nrc_amortization_result:
  "(let total_nrc = tooling + development + programming + special + other;
        by_ordered = (if 0 < oq then total_nrc / of_int oq else 0)
    in calculate_nrc_amortization tooling development programming special other oq aq =
         \<lparr>n_total_nrc = py_round total_nrc 2,
          n_nrc_per_unit =
            py_round (case aq of
                        None \<Rightarrow> by_ordered
                      | Some n \<Rightarrow> if 0 < n then total_nrc / of_int n
                                  else if n < 0 then 0
                                  else by_ordered) 2,
          n_amortization_quantity =
            (case aq of None \<Rightarrow> oq | Some n \<Rightarrow> if n = 0 then oq else n),
          n_tooling_cost = py_round tooling 2,
          n_development_cost = py_round development 2,
          n_cnc_programming_cost = py_round programming 2,
          n_special_process_cost = py_round special 2,
          n_other_nrc_cost = py_round other 2\<rparr>)"
  by (simp add: calculate_nrc_amortization_def Let_def split: option.splits)

theorem calculate_nrc_amortization_result_witness:
  "calculate_nrc_amortization 50000 25000 15000 10000 5000 100 (Some 50) =
     \<lparr>n_total_nrc = 105000, n_nrc_per_unit = 2100, n_amortization_quantity = 50,
      n_tooling_cost = 50000, n_development_cost = 25000, n_cnc_programming_cost = 15000,
      n_special_process_cost = 10000, n_other_nrc_cost = 5000\<rparr> \<and>
   calculate_nrc_amortization 50000 25000 15000 10000 5000 100 (Some (- 5)) =
     \<lparr>n_total_nrc = 105000, n_nrc_per_unit = 0, n_amortization_quantity = - 5,
      n_tooling_cost = 50000, n_development_cost = 25000, n_cnc_programming_cost = 15000,
      n_special_process_cost = 10000, n_other_nrc_cost = 5000\<rparr>"
  using calculate_nrc_amortization_result [of 50000 25000 15000 10000 5000 100 "Some 50"]
    calculate_nrc_amortization_result [of 50000 25000 15000 10000 5000 100 "Some (- 5)"]
  by (simp add: Let_def py_round_def)

text \<open>
  C10. When \<open>is_hal_free_issue\<close> is false and the shape and dimensions match neither the
  round pattern (shape \<open>round\<close> with \<open>diameter\<close> and \<open>length\<close> present) nor the rectangular
  pattern (shape \<open>rectangular\<close> with \<open>length\<close>, \<open>breadth\<close> and \<open>height\<close> present),
  \<open>calculate_material_cost\<close> raises nothing, whatever the values of the dict are: it takes
  the volume as 0 and returns cost 0 and weight 0.
\<close>

theorem material_cost_unmatched_shape:
  assumes "\<not> is_hal_free_issue"
    and "\<not> (shape = ''round'' \<and> dimensions ''diameter'' \<noteq> None \<and> dimensions ''length'' \<noteq> None)"
    and "\<not> (shape = ''rectangular'' \<and> dimensions ''length'' \<noteq> None \<and>
             dimensions ''breadth'' \<noteq> None \<and> dimensions ''height'' \<noteq> None)"
  shows "calculate_material_cost float material dimensions shape material_cost_per_kg
           is_hal_free_issue =
         Inr \<lparr>m_material_cost_per_unit = 0, m_material_weight_kg = 0, m_volume_cm3 = Some 0,
              m_density_g_cm3 = Some (case map_of densities (lower material) of
                                        Some d \<Rightarrow> d | None \<Rightarrow> 7.85),
              m_is_free_issue = False\<rparr>"
proof -
  have "material_volume_mm3 float dimensions shape = Inr 0"
    using assms(2,3) by (auto simp: material_volume_mm3_def)
  then show ?thesis
    using assms(1) by (simp add: calculate_material_cost_def py_round_zero)
qed

theorem material_cost_unmatched_shape_witness:
  "calculate_material_cost float_decimal ''Steel''
     [''diameter'' \<mapsto> PyStr ''wide'', ''breadth'' \<mapsto> PyOther] ''round'' 85 False =
   Inr \<lparr>m_material_cost_per_unit = 0, m_material_weight_kg = 0, m_volume_cm3 = Some 0,
        m_density_g_cm3 = Some 7.85, m_is_free_issue = False\<rparr>"
  using material_cost_unmatched_shape [of False "''round''"
      "[''diameter'' \<mapsto> PyStr ''wide'', ''breadth'' \<mapsto> PyOther]" float_decimal "''Steel''" 85]
  by (simp add: densities_def lower_def lower_char_def)

section \<open>Facts about the duty classification\<close>

lemma duty_index_simps:
  "duty_index ''light'' = 0" "duty_index ''medium'' = 1" "duty_index ''heavy'' = 2"
  by (simp_all add: duty_index_def duty_order_def)

lemma bump_simps:
  "bump ''light'' 0 = ''light''" "bump ''medium'' 0 = ''medium''" "bump ''heavy'' 0 = ''heavy''"
  "bump ''light'' 1 = ''medium''" "bump ''medium'' 1 = ''heavy''" "bump ''heavy'' 1 = ''heavy''"
  by (simp_all add: bump_def duty_index_simps duty_order_def)

text \<open>The three-way classification that every geometric rule ends in.\<close>

lemma base_by_geometry_rectangular:
  assumes "dimensions ''length'' = Some l" "dimensions ''breadth'' = Some b"
    and "dimensions ''height'' = Some h"
  shows "base_by_geometry ''rectangular'' dimensions mat op =
           Some (if max l (max b h) \<le> 750 then ''light''
                 else if max l (max b h) \<le> 1500 then ''medium'' else ''heavy'')"
  using assms by (simp add: base_by_geometry_def Let_def)

text \<open>For a round part the thresholds depend on material and operation only: two pairs
  (diameter, length), the first pair strict for turning and boring.\<close>

lemma base_by_geometry_round:
  "\<exists>strict (d1::real) (l1::real) (d2::real) (l2::real). d1 \<le> d2 \<and> l1 \<le> l2 \<and>
     (\<forall>dimensions d l. dimensions ''diameter'' = Some d \<longrightarrow> dimensions ''length'' = Some l \<longrightarrow>
        base_by_geometry ''round'' dimensions mat op =
          Some (if (if strict then d < d1 \<and> l < l1 else d \<le> d1 \<and> l \<le> l1) then ''light''
                else if d \<le> d2 \<and> l \<le> l2 then ''medium'' else ''heavy''))"
proof (cases "op = ''turning'' \<or> op = ''boring''")
  case False
  show ?thesis
    by (rule exI [of _ False], rule exI [of _ 100], rule exI [of _ 300], rule exI [of _ 300],
        rule exI [of _ 1200]) (use False in \<open>simp add: base_by_geometry_def\<close>)
next
  case turning: True
  show ?thesis
  proof (cases "mat = ''steel''")
    case True
    show ?thesis
      by (rule exI [of _ True], rule exI [of _ 50], rule exI [of _ 200], rule exI [of _ 100],
          rule exI [of _ 500]) (use turning True in \<open>auto simp: base_by_geometry_def\<close>)
  next
    case not_steel: False
    show ?thesis
    proof (cases "mat = ''titanium''")
      case True
      show ?thesis
        by (rule exI [of _ True], rule exI [of _ 30], rule exI [of _ 150], rule exI [of _ 60],
            rule exI [of _ 300]) (use turning True in \<open>auto simp: base_by_geometry_def\<close>)
    next
      case False
      show ?thesis
        by (rule exI [of _ True], rule exI [of _ 80], rule exI [of _ 500], rule exI [of _ 150],
            rule exI [of _ 1000])
          (use turning not_steel False in \<open>auto simp: base_by_geometry_def\<close>)
    qed
  qed
qed

lemma three_way_cases:
  "(if p then ''light'' else if q then ''medium'' else ''heavy'') \<in> {''light'', ''medium'', ''heavy''}"
  by simp

lemma base_by_geometry_valid:
  assumes "(shape = ''round'' \<and> dimensions ''diameter'' \<noteq> None \<and> dimensions ''length'' \<noteq> None) \<or>
           (shape = ''rectangular'' \<and> dimensions ''length'' \<noteq> None \<and>
            dimensions ''breadth'' \<noteq> None \<and> dimensions ''height'' \<noteq> None)"
  shows "\<exists>b \<in> {''light'', ''medium'', ''heavy''}. base_by_geometry shape dimensions mat op = Some b"
  using assms
proof (elim disjE conjE)
  assume "shape = ''round''" "dimensions ''diameter'' \<noteq> None" "dimensions ''length'' \<noteq> None"
  then obtain d l where dl: "dimensions ''diameter'' = Some d" "dimensions ''length'' = Some l"
    by blast
  obtain strict and d1 l1 d2 l2 :: real where "d1 \<le> d2" "l1 \<le> l2" and
    round: "\<And>dimensions d l. dimensions ''diameter'' = Some d \<Longrightarrow> dimensions ''length'' = Some l \<Longrightarrow>
       base_by_geometry ''round'' dimensions mat op =
         Some (if (if strict then d < d1 \<and> l < l1 else d \<le> d1 \<and> l \<le> l1) then ''light''
               else if d \<le> d2 \<and> l \<le> l2 then ''medium'' else ''heavy'')"
    using base_by_geometry_round [of mat op] by blast
  from round [OF dl] \<open>shape = ''round''\<close> show ?thesis
    by (simp split: if_splits)
next
  assume "shape = ''rectangular''" "dimensions ''length'' \<noteq> None"
    "dimensions ''breadth'' \<noteq> None" "dimensions ''height'' \<noteq> None"
  then obtain l b h where "dimensions ''length'' = Some l" "dimensions ''breadth'' = Some b"
    "dimensions ''height'' = Some h"
    by blast
  from base_by_geometry_rectangular [OF this, of mat op] \<open>shape = ''rectangular''\<close> show ?thesis
    by (simp split: if_splits)
qed

lemma adjust_base_titanium:
  "b \<in> {''light'', ''medium'', ''heavy''} \<Longrightarrow> adjust_base ''titanium'' op b = ''heavy''"
  by (auto simp: adjust_base_def Let_def bump_simps)

text \<open>
  C9. For every shape, operation and valid dimension set (shape \<open>round\<close> with \<open>diameter\<close>
  and \<open>length\<close>, or shape \<open>rectangular\<close> with \<open>length\<close>, \<open>breadth\<close> and \<open>height\<close>),
  \<open>determine_duty_category\<close> with a material that is \<open>titanium\<close> up to letter case and
  surrounding whitespace returns \<open>heavy\<close>: light is bumped to medium and medium to heavy.
\<close>

theorem titanium_is_heavy:
  assumes mat: "lower (strip material) = ''titanium''"
    and dims: "(shape = ''round'' \<and> dimensions ''diameter'' \<noteq> None \<and> dimensions ''length'' \<noteq> None) \<or>
               (shape = ''rectangular'' \<and> dimensions ''length'' \<noteq> None \<and>
                dimensions ''breadth'' \<noteq> None \<and> dimensions ''height'' \<noteq> None)"
  shows "determine_duty_category shape dimensions material operation = Inr ''heavy''"
proof -
  obtain b where b: "b \<in> {''light'', ''medium'', ''heavy''}"
      "base_by_geometry shape dimensions ''titanium'' (lower (strip operation)) = Some b"
    using base_by_geometry_valid [OF dims] by blast
  from b(1) have "adjust_base ''titanium'' (lower (strip operation)) b = ''heavy''"
    by (rule adjust_base_titanium)
  with b(2) mat show ?thesis
    by (simp add: determine_duty_category_def)
qed

theorem titanium_is_heavy_witness:
  "determine_duty_category ''round'' [''diameter'' \<mapsto> 5, ''length'' \<mapsto> 10]
     ''  TiTanium '' ''drilling'' = Inr ''heavy'' \<and>
   determine_duty_category ''rectangular''
     [''length'' \<mapsto> 5, ''breadth'' \<mapsto> 10, ''height'' \<mapsto> 2] ''TITANIUM'' ''milling'' =
     Inr ''heavy''"
  using titanium_is_heavy [of "''  TiTanium ''" "''round''"
      "[''diameter'' \<mapsto> 5, ''length'' \<mapsto> 10]" "''drilling''"]
    titanium_is_heavy [of "''TITANIUM''" "''rectangular''"
      "[''length'' \<mapsto> 5, ''breadth'' \<mapsto> 10, ''height'' \<mapsto> 2]" "''milling''"]
  by (simp add: lower_def strip_def lower_char_def isspace_def)

lemma three_way_mono:
  fixes d l d' l' :: real
  assumes "d \<le> d'" "l \<le> l'" "d1 \<le> d2" "l1 \<le> l2"
  shows "duty_index (if (if strict then d < d1 \<and> l < l1 else d \<le> d1 \<and> l \<le> l1) then ''light''
                     else if d \<le> d2 \<and> l \<le> l2 then ''medium'' else ''heavy'')
       \<le> duty_index (if (if strict then d' < d1 \<and> l' < l1 else d' \<le> d1 \<and> l' \<le> l1) then ''light''
                     else if d' \<le> d2 \<and> l' \<le> l2 then ''medium'' else ''heavy'')"
  using assms by (auto simp: duty_index_simps)

lemma rectangular_mono:
  fixes m m' :: real
  assumes "m \<le> m'"
  shows "duty_index (if m \<le> 750 then ''light'' else if m \<le> 1500 then ''medium'' else ''heavy'')
       \<le> duty_index (if m' \<le> 750 then ''light'' else if m' \<le> 1500 then ''medium'' else ''heavy'')"
  using assms by (auto simp: duty_index_simps)

lemma adjust_base_mono:
  assumes b: "b \<in> {''light'', ''medium'', ''heavy''}" and b': "b' \<in> {''light'', ''medium'', ''heavy''}"
    and le: "duty_index b \<le> duty_index b'"
  shows "duty_index (adjust_base mat op b) \<le> duty_index (adjust_base mat op b')"
proof -
  define st where "st = (mat = ''steel'')"
  define ti where "ti = (mat = ''titanium'')"
  define hw where "hw = (op = ''heat_treatment'' \<or> op = ''welding'')"
  have unfold: "adjust_base mat op c =
      (let base1 = (if st \<or> ti then
                      (let c1 = bump c (if c = ''light'' then 1 else 0)
                       in if ti \<and> c1 = ''medium'' then bump c1 1 else c1)
                    else c)
       in if hw then bump base1 1 else base1)" for c
    unfolding adjust_base_def st_def ti_def hw_def by simp
  have light: "adjust_base mat op ''light'' =
      (if ti then ''heavy'' else if st then (if hw then ''heavy'' else ''medium'')
       else if hw then ''medium'' else ''light'')"
    by (simp add: unfold bump_simps Let_def)
  have medium: "adjust_base mat op ''medium'' =
      (if ti then ''heavy'' else if hw then ''heavy'' else ''medium'')"
    by (simp add: unfold bump_simps Let_def)
  have heavy: "adjust_base mat op ''heavy'' = ''heavy''"
    by (simp add: unfold bump_simps Let_def)
  from b b' le show ?thesis
    by (auto simp: light medium heavy duty_index_simps)
qed

lemma update_keeps_order:
  fixes x y :: real
  assumes "dimensions k = Some x" "x \<le> y" "dimensions j = Some v"
  shows "\<exists>w. (dimensions(k \<mapsto> y)) j = Some w \<and> v \<le> w"
  using assms by (cases "j = k") auto

lemma base_by_geometry_mono:
  assumes dims: "(shape = ''round'' \<and> dimensions ''diameter'' \<noteq> None \<and> dimensions ''length'' \<noteq> None) \<or>
               (shape = ''rectangular'' \<and> dimensions ''length'' \<noteq> None \<and>
                dimensions ''breadth'' \<noteq> None \<and> dimensions ''height'' \<noteq> None)"
    and key: "dimensions k = Some x" and le: "x \<le> y"
  shows "\<exists>b \<in> {''light'', ''medium'', ''heavy''}. \<exists>b' \<in> {''light'', ''medium'', ''heavy''}.
           base_by_geometry shape dimensions mat op = Some b \<and>
           base_by_geometry shape (dimensions(k \<mapsto> y)) mat op = Some b' \<and>
           duty_index b \<le> duty_index b'"
  using dims
proof (elim disjE conjE)
  assume shape: "shape = ''round''"
    and "dimensions ''diameter'' \<noteq> None" "dimensions ''length'' \<noteq> None"
  then obtain d l where d: "dimensions ''diameter'' = Some d" and l: "dimensions ''length'' = Some l"
    by blast
  obtain d' where d': "(dimensions(k \<mapsto> y)) ''diameter'' = Some d'" "d \<le> d'"
    using update_keeps_order [of dimensions k x y "''diameter''" d, OF key le d] by blast
  obtain l' where l': "(dimensions(k \<mapsto> y)) ''length'' = Some l'" "l \<le> l'"
    using update_keeps_order [of dimensions k x y "''length''" l, OF key le l] by blast
  obtain strict and d1 l1 d2 l2 :: real where ord: "d1 \<le> d2" "l1 \<le> l2" and
    round: "\<And>dimensions d l. dimensions ''diameter'' = Some d \<Longrightarrow> dimensions ''length'' = Some l \<Longrightarrow>
       base_by_geometry ''round'' dimensions mat op =
         Some (if (if strict then d < d1 \<and> l < l1 else d \<le> d1 \<and> l \<le> l1) then ''light''
               else if d \<le> d2 \<and> l \<le> l2 then ''medium'' else ''heavy'')"
    using base_by_geometry_round [of mat op] by blast
  let ?c = "\<lambda>d l. if (if strict then d < d1 \<and> l < l1 else d \<le> d1 \<and> l \<le> l1) then ''light''
                   else if d \<le> d2 \<and> l \<le> l2 then ''medium'' else ''heavy''"
  have old: "base_by_geometry shape dimensions mat op = Some (?c d l)"
    unfolding shape by (rule round [OF d l])
  have new: "base_by_geometry shape (dimensions(k \<mapsto> y)) mat op = Some (?c d' l')"
    unfolding shape by (rule round [OF d'(1) l'(1)])
  have "duty_index (?c d l) \<le> duty_index (?c d' l')"
    using d'(2) l'(2) ord by (rule three_way_mono)
  moreover have "?c d l \<in> {''light'', ''medium'', ''heavy''}" "?c d' l' \<in> {''light'', ''medium'', ''heavy''}"
    by (rule three_way_cases)+
  ultimately show ?thesis
    using old new by blast
next
  assume shape: "shape = ''rectangular''"
    and "dimensions ''length'' \<noteq> None" "dimensions ''breadth'' \<noteq> None"
      "dimensions ''height'' \<noteq> None"
  then obtain l b h where l: "dimensions ''length'' = Some l"
    and b: "dimensions ''breadth'' = Some b" and h: "dimensions ''height'' = Some h"
    by blast
  obtain l' where l': "(dimensions(k \<mapsto> y)) ''length'' = Some l'" "l \<le> l'"
    using update_keeps_order [of dimensions k x y "''length''" l, OF key le l] by blast
  obtain b' where b': "(dimensions(k \<mapsto> y)) ''breadth'' = Some b'" "b \<le> b'"
    using update_keeps_order [of dimensions k x y "''breadth''" b, OF key le b] by blast
  obtain h' where h': "(dimensions(k \<mapsto> y)) ''height'' = Some h'" "h \<le> h'"
    using update_keeps_order [of dimensions k x y "''height''" h, OF key le h] by blast
  let ?c = "\<lambda>m::real. if m \<le> 750 then ''light'' else if m \<le> 1500 then ''medium'' else ''heavy''"
  have old: "base_by_geometry shape dimensions mat op = Some (?c (max l (max b h)))"
    unfolding shape by (rule base_by_geometry_rectangular [OF l b h])
  have new: "base_by_geometry shape (dimensions(k \<mapsto> y)) mat op = Some (?c (max l' (max b' h')))"
    unfolding shape by (rule base_by_geometry_rectangular [OF l'(1) b'(1) h'(1)])
  have "max l (max b h) \<le> max l' (max b' h')"
    using l'(2) b'(2) h'(2) by linarith
  then have "duty_index (?c (max l (max b h))) \<le> duty_index (?c (max l' (max b' h')))"
    by (rule rectangular_mono)
  moreover have "?c (max l (max b h)) \<in> {''light'', ''medium'', ''heavy''}"
    "?c (max l' (max b' h')) \<in> {''light'', ''medium'', ''heavy''}"
    by (rule three_way_cases)+
  ultimately show ?thesis
    using old new by blast
qed

text \<open>
  C7. For every fixed material, operation and shape with its valid dimension set,
  \<open>determine_duty_category\<close> is monotone in size: raising any single dimension while the
  others stay fixed gives a duty that is not lower in the order light, medium, heavy
  (and neither call raises).
\<close>

theorem duty_monotone_in_size:
  assumes dims: "(shape = ''round'' \<and> dimensions ''diameter'' \<noteq> None \<and> dimensions ''length'' \<noteq> None) \<or>
               (shape = ''rectangular'' \<and> dimensions ''length'' \<noteq> None \<and>
                dimensions ''breadth'' \<noteq> None \<and> dimensions ''height'' \<noteq> None)"
    and key: "dimensions k = Some x" and le: "x \<le> y"
  shows "\<exists>d d'. determine_duty_category shape dimensions material operation = Inr d \<and>
                determine_duty_category shape (dimensions(k \<mapsto> y)) material operation = Inr d' \<and>
                duty_index d \<le> duty_index d'"
proof -
  let ?mat = "lower (strip material)" and ?op = "lower (strip operation)"
  obtain b b' where b: "b \<in> {''light'', ''medium'', ''heavy''}" "b' \<in> {''light'', ''medium'', ''heavy''}"
    and old: "base_by_geometry shape dimensions ?mat ?op = Some b"
    and new: "base_by_geometry shape (dimensions(k \<mapsto> y)) ?mat ?op = Some b'"
    and le': "duty_index b \<le> duty_index b'"
    using base_by_geometry_mono [OF dims key le, of ?mat ?op] by blast
  have "duty_index (adjust_base ?mat ?op b) \<le> duty_index (adjust_base ?mat ?op b')"
    using b le' by (rule adjust_base_mono)
  with old new show ?thesis
    by (simp add: determine_duty_category_def)
qed

theorem duty_monotone_in_size_witness:
  "\<exists>d d'. determine_duty_category ''round'' [''diameter'' \<mapsto> 40, ''length'' \<mapsto> 100]
             ''steel'' ''turning'' = Inr d \<and>
           determine_duty_category ''round''
             ([''diameter'' \<mapsto> 40, ''length'' \<mapsto> 100](''length'' \<mapsto> 600))
             ''steel'' ''turning'' = Inr d' \<and>
           duty_index d \<le> duty_index d'"
  using duty_monotone_in_size [of "''round''" "[''diameter'' \<mapsto> 40, ''length'' \<mapsto> 100]"
      "''length''" 100 600 "''steel''" "''turning''"]
  by simp

section \<open>Facts about the machine hour rate resolver\<close>

lemma methodology_table_utilization:
  assumes "map_of methodology_table key = Some (invest, kw, avail_hours, downtime_rate)"
  shows "avail_hours * (1 - downtime_rate) \<noteq> 0"
proof -
  have "(key, (invest, kw, avail_hours, downtime_rate)) \<in> set methodology_table"
    using assms by (rule map_of_SomeD)
  then have "(avail_hours = 3600 \<and> downtime_rate = 0.07) \<or> (avail_hours = 4500 \<and> downtime_rate = 0.15)"
    by (auto simp: methodology_table_def service_constants)
  then show ?thesis
    by auto
qed

lemma methodology_rate_value:
  assumes "methodology_inputs operation duty (determine_machine_category machine_name) =
             Some (invest, kw, avail_hours, downtime_rate)"
  shows "methodology_rate operation duty machine_name =
           Inr (Some (invest * 0.10 / (avail_hours * (1 - downtime_rate)) + kw * 5))"
proof -
  have "avail_hours * (1 - downtime_rate) \<noteq> 0"
    using assms unfolding methodology_inputs_def Let_def by (rule methodology_table_utilization)
  with assms show ?thesis
    by (simp add: methodology_rate_def Let_def service_constants)
qed

lemma methodology_rate_never_raises: "methodology_rate operation duty machine_name \<noteq> Inl e"
proof (cases "methodology_inputs operation duty (determine_machine_category machine_name)")
  case None
  then show ?thesis
    by (simp add: methodology_rate_def)
next
  case (Some a)
  then show ?thesis
    by (cases a) (simp add: methodology_rate_value)
qed

lemma determine_machine_category_cases:
  "determine_machine_category machine_name \<in> {''cnc_5axis'', ''cnc_3axis'', ''spm'', ''conventional''}"
  by (simp add: determine_machine_category_def Let_def)

lemma category_bucket_of_category:
  "category_bucket (determine_machine_category machine_name) =
     (let category = determine_machine_category machine_name
      in if category = ''cnc_3axis'' \<or> category = ''cnc_5axis'' then ''cnc''
         else if category = ''spm'' then ''spm''
         else ''conventional'')"
proof -
  have "category_bucket ''cnc_5axis'' = ''cnc''" "category_bucket ''cnc_3axis'' = ''cnc''"
    "category_bucket ''spm'' = ''spm''" "category_bucket ''conventional'' = ''conventional''"
    by code_simp+
  then show ?thesis
    using determine_machine_category_cases [of machine_name] by (auto simp: Let_def)
qed

lemma no_spm_entry: "map_of methodology_table (op_key, du_key, ''spm'') = None"
  by (simp add: methodology_table_def)

text \<open>
  C3, as claimed, takes the category bucket of the specification, which collapses every
  machine category to \<open>conventional\<close> or \<open>cnc\<close>. For the machine \<open>Special Purpose Lathe\<close>, turning
  and light duty, that key (turning, light, conventional) is in the methodology table, yet
  \<open>get_machine_hour_rate\<close> does not return the Tier 1 value: the code keeps \<open>spm\<close> as a
  bucket of its own, finds no entry, and with no configuration record it raises.
\<close>

theorem spm_bucket_counterexample:
  "map_of methodology_table
     (''turning'', ''light'',
      spec_category_bucket (determine_machine_category ''Special Purpose Lathe'')) =
     Some (2000000, 5, 3600, 0.07) \<and>
   get_machine_hour_rate float_decimal ''turning'' ''light'' ''Special Purpose Lathe''
     \<lparr>operation_type_table = [], machines_table = [], duties_table = [], mhr_table = [],
      failing = {}\<rparr> None None None = Inl (ValueError MHR_NOT_CONFIGURED)"
  by code_simp

text \<open>
  C3, amended. The category bucket is \<open>cnc\<close> for a machine of category cnc_3axis or
  cnc_5axis, \<open>conventional\<close> for a conventional machine and \<open>spm\<close> for an spm machine. For
  every operation, duty and machine name whose key (operation and duty stripped and in lower
  case, that bucket) is present in the static methodology table, \<open>get_machine_hour_rate\<close>
  returns the Tier 1 value \<open>investment * 0.10 / (available_hours * (1 - downtime)) + kW * 5\<close>
  of that entry, without the 5% maintenance multiplier, whatever the session holds (any
  configuration records, any failing queries) and whatever ids are passed. The table holds no
  entry with the bucket \<open>spm\<close>, so Tier 1 never yields a rate for an spm machine.
\<close>

theorem methodology_rate_wins:
  "(let category = determine_machine_category machine_name;
        bucket = (if category = ''cnc_3axis'' \<or> category = ''cnc_5axis'' then ''cnc''
                  else if category = ''spm'' then ''spm''
                  else ''conventional'')
    in (map_of methodology_table (lower (strip operation), lower (strip duty), bucket) =
          Some (invest, kw, avail_hours, downtime_rate) \<longrightarrow>
        get_machine_hour_rate float operation duty machine_name db machine_id op_type_id
            duty_id =
          Inr (invest * 0.10 / (avail_hours * (1 - downtime_rate)) + kw * 5)) \<and>
       (category = ''spm'' \<longrightarrow> methodology_rate operation duty machine_name = Inr None))"
proof -
  let ?category = "determine_machine_category machine_name"
  let ?bucket = "if ?category = ''cnc_3axis'' \<or> ?category = ''cnc_5axis'' then ''cnc''
                 else if ?category = ''spm'' then ''spm'' else ''conventional''"
  have inputs: "methodology_inputs operation duty ?category =
      map_of methodology_table (lower (strip operation), lower (strip duty), ?bucket)"
    by (simp add: methodology_inputs_def category_bucket_of_category Let_def)
  have tier1: "get_machine_hour_rate float operation duty machine_name db machine_id op_type_id
        duty_id = Inr (invest * 0.10 / (avail_hours * (1 - downtime_rate)) + kw * 5)"
    if "map_of methodology_table (lower (strip operation), lower (strip duty), ?bucket) =
          Some (invest, kw, avail_hours, downtime_rate)"
    using that unfolding inputs [symmetric]
    by (simp add: get_machine_hour_rate_def first_try_block_def methodology_rate_value)
  have spm: "methodology_rate operation duty machine_name = Inr None" if "?category = ''spm''"
  proof -
    have "methodology_inputs operation duty ?category = None"
      unfolding inputs using that by (simp add: no_spm_entry)
    then show ?thesis
      unfolding methodology_rate_def Let_def by simp
  qed
  show ?thesis
    unfolding Let_def using tier1 spm by blast
qed

theorem methodology_rate_wins_witness:
  "get_machine_hour_rate float_decimal ''Turning '' ''medium'' ''CNC Lathe''
     \<lparr>operation_type_table = [\<lparr>ot_id = 1, ot_operation_name = ''Turning''\<rparr>],
      machines_table = [\<lparr>mc_id = 3, mc_name = ''CNC Lathe'', mc_op_id = Some 1\<rparr>],
      duties_table = [\<lparr>dt_id = 2, dt_name = ''Medium duty''\<rparr>],
      mhr_table = [\<lparr>mhr_id = 1, mhr_op_type_id = Some 1, mhr_duty_id = Some 2,
                     mhr_machine_id = Some 3, mhr_investment_cost = Some ''1000000'',
                     mhr_elect_power_rating = Some ''10'', mhr_elect_power_charges = None,
                     mhr_available_hrs_per_annum = Some ''2000'',
                     mhr_utilization_hrs_year = None, mhr_machine_hr_rate = Some ''999''\<rparr>],
      failing = {}\<rparr> (Some 3) (Some 1) (Some 2) =
     Inr (6000000 * 0.10 / (4500 * (1 - 0.15)) + 15 * 5) \<and>
   get_machine_hour_rate float_decimal ''turning'' ''LIGHT'' ''Conventional Lathe''
     \<lparr>operation_type_table = [], machines_table = [], duties_table = [], mhr_table = [],
      failing = {SelectMHRJoined}\<rparr> None None None =
     Inr (2000000 * 0.10 / (3600 * (1 - 0.07)) + 5 * 5) \<and>
   methodology_rate ''turning'' ''light'' ''Special Purpose Lathe'' = Inr None"
proof -
  have categories: "determine_machine_category ''CNC Lathe'' = ''cnc_3axis''"
    "determine_machine_category ''Conventional Lathe'' = ''conventional''"
    "determine_machine_category ''Special Purpose Lathe'' = ''spm''"
    by code_simp+
  have keys: "lower (strip ''Turning '') = ''turning''" "lower (strip ''medium'') = ''medium''"
    "lower (strip ''turning'') = ''turning''" "lower (strip ''LIGHT'') = ''light''"
    by code_simp+
  have entries:
    "map_of methodology_table (''turning'', ''medium'', ''cnc'') = Some (6000000, 15, 4500, 0.15)"
    "map_of methodology_table (''turning'', ''light'', ''conventional'') =
       Some (2000000, 5, 3600, 0.07)"
    by (simp_all add: methodology_table_def service_constants)
  show ?thesis
    using
      methodology_rate_wins [where machine_name = "''CNC Lathe''" and operation = "''Turning ''"
        and duty = "''medium''" and invest = 6000000 and kw = 15 and avail_hours = 4500
        and downtime_rate = "0.15" and float = float_decimal and machine_id = "Some 3"
        and op_type_id = "Some 1" and duty_id = "Some 2"]
      methodology_rate_wins [where machine_name = "''Conventional Lathe''"
        and operation = "''turning''" and duty = "''LIGHT''" and invest = 2000000 and kw = 5
        and avail_hours = 3600 and downtime_rate = "0.07" and float = float_decimal
        and machine_id = None and op_type_id = None and duty_id = None]
      methodology_rate_wins [where machine_name = "''Special Purpose Lathe''"
        and operation = "''turning''" and duty = "''light''"]
    by (simp add: Let_def categories keys entries)
qed

lemma get_machine_hour_rate_tiers:
  "get_machine_hour_rate float operation duty machine_name db machine_id op_type_id duty_id =
     (case methodology_rate operation duty machine_name of
        Inr (Some rate) \<Rightarrow> Inr rate
      | _ \<Rightarrow>
        (case exact_config_rate float operation duty machine_name db machine_id op_type_id duty_id of
           Inr (Some rate) \<Rightarrow> Inr rate
         | _ \<Rightarrow>
           (case normalized_scan_rate float operation duty machine_name db of
              Inr (Some rate) \<Rightarrow> Inr rate
            | _ \<Rightarrow> Inl (ValueError MHR_NOT_CONFIGURED))))"
  using methodology_rate_never_raises [of operation duty machine_name]
  by (auto simp: get_machine_hour_rate_def first_try_block_def split: sum.splits option.splits)

lemma get_machine_hour_rate_error:
  "get_machine_hour_rate float operation duty machine_name db machine_id op_type_id duty_id = Inl e
   \<Longrightarrow> e = ValueError MHR_NOT_CONFIGURED"
  by (auto simp: get_machine_hour_rate_def split: sum.splits option.splits)

lemma lower_category:
  "lower (determine_machine_category machine_name) = ''conventional'' \<longleftrightarrow>
   determine_machine_category machine_name = ''conventional''"
  using determine_machine_category_cases [of machine_name]
  by (auto simp: lower_def lower_char_def)

text \<open>
  C4. \<open>get_machine_hour_rate_with_fallback\<close> never raises. Whenever
  \<open>get_machine_hour_rate\<close> (called without ids, as the fallback calls it) fails to resolve a
  rate, it returns \<open>(investment * 0.10 / (2400 * (1 - downtime_rate)) + kW * 5) * 1.05\<close>, with
  the 5% maintenance multiplier, from the category defaults conventional 1,000,000 and 15 kW,
  cnc_3axis 3,000,000 and 20 kW, otherwise 5,000,000 and 25 kW, and the downtime rate 7% for
  conventional and 15% otherwise.
\<close>

theorem fallback_rate:
  "(\<exists>rate. get_machine_hour_rate_with_fallback float operation duty machine_name db = Inr rate) \<and>
   (get_machine_hour_rate float operation duty machine_name db None None None = Inl e \<longrightarrow>
    get_machine_hour_rate_with_fallback float operation duty machine_name db =
      Inr (let category = determine_machine_category machine_name;
               investment = (if category = ''conventional'' then 1000000
                             else if category = ''cnc_3axis'' then 3000000 else 5000000);
               kw = (if category = ''conventional'' then 15
                     else if category = ''cnc_3axis'' then 20 else 25);
               downtime_rate = (if category = ''conventional'' then 0.07 else 0.15)
           in (investment * 0.10 / (2400 * (1 - downtime_rate)) + kw * 5) * 1.05))"
proof (cases "get_machine_hour_rate float operation duty machine_name db None None None")
  case (Inr rate)
  then show ?thesis
    by (simp add: get_machine_hour_rate_with_fallback_def)
next
  case (Inl x)
  then have x: "x = ValueError MHR_NOT_CONFIGURED"
    by (rule get_machine_hour_rate_error)
  have "get_machine_hour_rate_with_fallback float operation duty machine_name db =
      Inr (let category = determine_machine_category machine_name;
               investment = (if category = ''conventional'' then 1000000
                             else if category = ''cnc_3axis'' then 3000000 else 5000000);
               kw = (if category = ''conventional'' then 15
                     else if category = ''cnc_3axis'' then 20 else 25);
               downtime_rate = (if category = ''conventional'' then 0.07 else 0.15)
           in (investment * 0.10 / (2400 * (1 - downtime_rate)) + kw * 5) * 1.05)"
    using Inl x
    by (simp add: get_machine_hour_rate_with_fallback_def calculate_complete_machine_hour_rate_def
        lower_category service_constants Let_def)
  then show ?thesis
    by simp
qed

lemma unresolved_drilling:
  "get_machine_hour_rate float_decimal ''drilling'' ''light'' ''Radial Drill''
     \<lparr>operation_type_table = [], machines_table = [], duties_table = [], mhr_table = [],
      failing = {}\<rparr> None None None = Inl (ValueError MHR_NOT_CONFIGURED)"
  by code_simp

theorem fallback_rate_witness:
  "get_machine_hour_rate_with_fallback float_decimal ''drilling'' ''light'' ''Radial Drill''
     \<lparr>operation_type_table = [], machines_table = [], duties_table = [], mhr_table = [],
      failing = {}\<rparr> = Inr ((1000000 * 0.10 / (2400 * (1 - 0.07)) + 15 * 5) * 1.05)"
proof -
  have "determine_machine_category ''Radial Drill'' = ''conventional''"
    by code_simp
  with fallback_rate [of float_decimal "''drilling''" "''light''" "''Radial Drill''"
      "\<lparr>operation_type_table = [], machines_table = [], duties_table = [], mhr_table = [],
        failing = {}\<rparr>" "ValueError MHR_NOT_CONFIGURED"] unresolved_drilling
  show ?thesis
    by (simp add: Let_def)
qed

text \<open>
  C8, as claimed, has the raised error identify the unresolved (operation, duty, machine)
  triple. The error is the same fixed \<open>ValueError\<close> for every triple: the drilling and the
  welding request below raise equal errors, and the message holds none of the three values
  of the drilling request.
\<close>

theorem unresolved_error_counterexample:
  "get_machine_hour_rate float_decimal ''drilling'' ''light'' ''Radial Drill''
     \<lparr>operation_type_table = [], machines_table = [], duties_table = [], mhr_table = [],
      failing = {}\<rparr> None None None =
   get_machine_hour_rate float_decimal ''welding'' ''heavy'' ''Arc Welder''
     \<lparr>operation_type_table = [], machines_table = [], duties_table = [], mhr_table = [],
      failing = {}\<rparr> None None None \<and>
   get_machine_hour_rate float_decimal ''drilling'' ''light'' ''Radial Drill''
     \<lparr>operation_type_table = [], machines_table = [], duties_table = [], mhr_table = [],
      failing = {}\<rparr> None None None = Inl (ValueError MHR_NOT_CONFIGURED) \<and>
   \<not> contains MHR_NOT_CONFIGURED ''drilling'' \<and>
   \<not> contains MHR_NOT_CONFIGURED ''light'' \<and>
   \<not> contains MHR_NOT_CONFIGURED ''Radial Drill''"
  by code_simp

text \<open>
  C8, amended. \<open>get_machine_hour_rate\<close> returns the rate of the first tier that yields one
  (static methodology table, exact configuration record, normalized scan), where a tier in
  which something is raised counts as yielding none. It raises if and only if no tier yields
  a rate, and what it raises is always the one \<open>ValueError\<close> with the fixed message that the
  MHR is not configured for the selected operation, duty and machine, which does not carry
  their values. No fault of a database lookup of tiers 2 and 3 reaches the caller.
\<close>

theorem get_machine_hour_rate_raises_iff:
  "get_machine_hour_rate float operation duty machine_name db machine_id op_type_id duty_id =
     (case methodology_rate operation duty machine_name of
        Inr (Some rate) \<Rightarrow> Inr rate
      | _ \<Rightarrow>
        (case exact_config_rate float operation duty machine_name db machine_id op_type_id duty_id of
           Inr (Some rate) \<Rightarrow> Inr rate
         | _ \<Rightarrow>
           (case normalized_scan_rate float operation duty machine_name db of
              Inr (Some rate) \<Rightarrow> Inr rate
            | _ \<Rightarrow> Inl (ValueError MHR_NOT_CONFIGURED)))) \<and>
   ((\<exists>e. get_machine_hour_rate float operation duty machine_name db machine_id op_type_id duty_id
           = Inl e) \<longleftrightarrow>
    \<not> (\<exists>rate. methodology_rate operation duty machine_name = Inr (Some rate)) \<and>
    \<not> (\<exists>rate. exact_config_rate float operation duty machine_name db machine_id op_type_id
                  duty_id = Inr (Some rate)) \<and>
    \<not> (\<exists>rate. normalized_scan_rate float operation duty machine_name db = Inr (Some rate))) \<and>
   (\<forall>e. get_machine_hour_rate float operation duty machine_name db machine_id op_type_id duty_id
           = Inl e \<longrightarrow> e = ValueError MHR_NOT_CONFIGURED)"
  unfolding get_machine_hour_rate_tiers
  by (auto split: sum.splits option.splits)

theorem get_machine_hour_rate_raises_iff_witness:
  "exact_config_rate float_decimal ''drilling'' ''light'' ''Radial Drill''
     \<lparr>operation_type_table = [\<lparr>ot_id = 1, ot_operation_name = ''Drilling''\<rparr>],
      machines_table = [\<lparr>mc_id = 3, mc_name = ''Radial Drill'', mc_op_id = Some 1\<rparr>],
      duties_table = [\<lparr>dt_id = 2, dt_name = ''Light duty''\<rparr>],
      mhr_table = [\<lparr>mhr_id = 1, mhr_op_type_id = Some 1, mhr_duty_id = Some 2,
                     mhr_machine_id = Some 3, mhr_investment_cost = Some ''1000000'',
                     mhr_elect_power_rating = Some ''10'', mhr_elect_power_charges = None,
                     mhr_available_hrs_per_annum = Some ''2000'',
                     mhr_utilization_hrs_year = None, mhr_machine_hr_rate = Some ''999''\<rparr>],
      failing = {SelectMHR, SelectMHRJoined}\<rparr> (Some 3) None None = Inl OperationalError \<and>
   normalized_scan_rate float_decimal ''drilling'' ''light'' ''Radial Drill''
     \<lparr>operation_type_table = [\<lparr>ot_id = 1, ot_operation_name = ''Drilling''\<rparr>],
      machines_table = [\<lparr>mc_id = 3, mc_name = ''Radial Drill'', mc_op_id = Some 1\<rparr>],
      duties_table = [\<lparr>dt_id = 2, dt_name = ''Light duty''\<rparr>],
      mhr_table = [\<lparr>mhr_id = 1, mhr_op_type_id = Some 1, mhr_duty_id = Some 2,
                     mhr_machine_id = Some 3, mhr_investment_cost = Some ''1000000'',
                     mhr_elect_power_rating = Some ''10'', mhr_elect_power_charges = None,
                     mhr_available_hrs_per_annum = Some ''2000'',
                     mhr_utilization_hrs_year = None, mhr_machine_hr_rate = Some ''999''\<rparr>],
      failing = {SelectMHR, SelectMHRJoined}\<rparr> = Inl OperationalError \<and>
   get_machine_hour_rate float_decimal ''drilling'' ''light'' ''Radial Drill''
     \<lparr>operation_type_table = [\<lparr>ot_id = 1, ot_operation_name = ''Drilling''\<rparr>],
      machines_table = [\<lparr>mc_id = 3, mc_name = ''Radial Drill'', mc_op_id = Some 1\<rparr>],
      duties_table = [\<lparr>dt_id = 2, dt_name = ''Light duty''\<rparr>],
      mhr_table = [\<lparr>mhr_id = 1, mhr_op_type_id = Some 1, mhr_duty_id = Some 2,
                     mhr_machine_id = Some 3, mhr_investment_cost = Some ''1000000'',
                     mhr_elect_power_rating = Some ''10'', mhr_elect_power_charges = None,
                     mhr_available_hrs_per_annum = Some ''2000'',
                     mhr_utilization_hrs_year = None, mhr_machine_hr_rate = Some ''999''\<rparr>],
      failing = {SelectMHR, SelectMHRJoined}\<rparr> (Some 3) None None =
     Inl (ValueError MHR_NOT_CONFIGURED)"
  (is "?t2 \<and> ?t3 \<and> ?g")
proof -
  have t1: "methodology_rate ''drilling'' ''light'' ''Radial Drill'' = Inr None"
    by code_simp
  have t2: ?t2
    by code_simp
  have t3: ?t3
    by code_simp
  from get_machine_hour_rate_raises_iff [of float_decimal "''drilling''" "''light''"
      "''Radial Drill''" _ "Some 3" None None, THEN conjunct1] t1 t2 t3
  have ?g
    by simp
  with t2 t3 show ?thesis
    by simp
qed

section \<open>Facts about the estimation route\<close>

lemma scenario_duty:
  "determine_duty_category ''round'' [''diameter'' \<mapsto> 50, ''length'' \<mapsto> 200] ''steel'' ''turning''
     = Inr ''medium''"
  by (simp add: determine_duty_category_def base_by_geometry_def adjust_base_def bump_simps
      lower_def lower_char_def strip_def isspace_def)

lemma scenario_category: "determine_machine_category ''CNC Lathe'' = ''cnc_3axis''"
  by code_simp

lemma scenario_inputs:
  "methodology_inputs ''turning'' ''medium'' (determine_machine_category ''CNC Lathe'') =
     Some (6000000, 15, 4500, 0.15)"
  unfolding scenario_category
  by (simp add: methodology_inputs_def methodology_table_def category_bucket_def startswith_def
      lower_def lower_char_def strip_def isspace_def service_constants)

lemma scenario_rate:
  "get_machine_hour_rate float ''turning'' ''medium'' ''CNC Lathe'' db machine_id op_type_id duty_id
     = Inr (11825 / 51)"
  by (simp add: get_machine_hour_rate_def first_try_block_def
      methodology_rate_value [OF scenario_inputs])

lemma scenario_costs:
  "calculate_costs (1 / 2) (11825 / 51) 100 1 0 =
     \<lparr>d_man_hours_per_unit = 0.5, d_machine_hour_rate = 231.86, d_wage_rate = 100,
      d_basic_cost_per_unit = 165.93, d_overheads_per_unit = 50, d_profit_per_unit = 21.59,
      d_packing_forwarding_per_unit = 3.32, d_unit_cost = 240.84,
      d_total_unit_cost_with_misc = 240.84, d_total_cost = Some 240.84,
      d_outsourcing_mhr = 431.86, d_miscellaneous_amount = 0\<rparr>"
  by (simp add: calculate_costs_def calculate_costs_locals_def py_round_def Let_def)

text \<open>
  C2, as claimed, has the methodology entry for (turning, medium, cnc) hold 2400 available
  hours and the rate come out at about 369.12. The entry holds 4500 hours, and the rate
  resolved for the scenario rounds to 231.86.
\<close>

theorem scenario_counterexample:
  "methodology_inputs ''turning'' ''medium'' (determine_machine_category ''CNC Lathe'') \<noteq>
     Some (6000000, 15, 2400, 0.15) \<and>
   get_machine_hour_rate float_decimal ''turning'' ''medium'' ''CNC Lathe''
     \<lparr>operation_type_table = [], machines_table = [], duties_table = [], mhr_table = [],
      failing = {}\<rparr> None None None = Inr (11825 / 51) \<and>
   py_round (11825 / 51) 2 \<noteq> 369.12"
  by (simp add: scenario_inputs scenario_rate py_round_def Let_def)

text \<open>
  C2, amended. For the single-operation estimate with operation turning, material steel,
  diameter 50, length 200, machine name \<open>CNC Lathe\<close> (found in the machines table),
  man-hours 0.5, no duty override and no miscellaneous amount: the duty resolves to medium;
  the Tier 1 lookup for (turning, medium, cnc) yields investment 6,000,000, 15 kW, 4500
  available hours and downtime 0.15, hence utilization 3825, power charges 75, depreciation
  about 156.86 and B about 231.86; the wage category is CNC, so C = 100; and the breakdown
  gives D about 165.93, OH = 50.00, profit about 21.59, packing and forwarding about 3.32,
  unit cost about 240.84 and outsourcing rate about 431.86.
\<close>

theorem scenario_estimate:
  assumes machine: "select_machine_by_name db ''CNC Lathe'' = Inr (Some m)"
    and request: "request =
      \<lparr>rq_material = STEEL, rq_operation_type = TURNING,
       rq_dimensions = \<lparr>dim_diameter = Some 50, dim_length = 200, dim_breadth = None,
                         dim_height = None\<rparr>,
       rq_machine_name = ''CNC Lathe'', rq_man_hours_per_unit = 0.5,
       rq_duty_category = None, rq_miscellaneous_amount = misc\<rparr>"
    and misc: "misc = None \<or> misc = Some 0"
  shows "(\<exists>response. calculate_cost_estimation float request db = Inr response \<and>
           rs_duty_category response = ''medium'' \<and>
           rs_machine_category response = ''cnc_3axis'' \<and>
           rs_cost_breakdown response =
             \<lparr>d_man_hours_per_unit = 0.5, d_machine_hour_rate = 231.86, d_wage_rate = 100,
              d_basic_cost_per_unit = 165.93, d_overheads_per_unit = 50,
              d_profit_per_unit = 21.59, d_packing_forwarding_per_unit = 3.32,
              d_unit_cost = 240.84, d_total_unit_cost_with_misc = 240.84,
              d_total_cost = None, d_outsourcing_mhr = 431.86,
              d_miscellaneous_amount = 0\<rparr>) \<and>
         methodology_inputs ''turning'' ''medium'' (determine_machine_category ''CNC Lathe'') =
           Some (6000000, 15, 4500, 0.15) \<and>
         4500 * (1 - 0.15) = (3825::real) \<and>
         15 * POWER_RATE_PER_UNIT = 75 \<and>
         py_round (6000000 * ANNUAL_DEPRECIATION_RATE / 3825) 2 = 156.86 \<and>
         py_round (6000000 * ANNUAL_DEPRECIATION_RATE / 3825 + 75) 2 = 231.86 \<and>
         get_wage_rate ''CNC Lathe'' = 100"
proof -
  have name: "mc_name m = ''CNC Lathe''"
    using machine by (auto simp: select_machine_by_name_def find_Some_iff split: if_splits)
  have details: "get_machine_details ''CNC Lathe'' db =
      Inr \<lparr>md_id = mc_id m, md_name = ''CNC Lathe'', md_operation_type_id = mc_op_id m\<rparr>"
    using machine name by (simp add: get_machine_details_def)
  have fallback: "get_machine_hour_rate_with_fallback float ''turning'' ''medium'' ''CNC Lathe'' db
      = Inr (11825 / 51)"
    by (simp add: get_machine_hour_rate_with_fallback_def scenario_rate)
  have wage: "get_wage_rate ''CNC Lathe'' = 100"
    by (simp add: get_wage_rate_def scenario_category service_constants)
  have misc0: "(case misc of None \<Rightarrow> 0 | Some a \<Rightarrow> a) = (0::real)"
    using misc by auto
  have route: "\<exists>response. calculate_cost_estimation float request db = Inr response \<and>
           rs_duty_category response = ''medium'' \<and>
           rs_machine_category response = ''cnc_3axis'' \<and>
           rs_cost_breakdown response =
             \<lparr>d_man_hours_per_unit = 0.5, d_machine_hour_rate = 231.86, d_wage_rate = 100,
              d_basic_cost_per_unit = 165.93, d_overheads_per_unit = 50,
              d_profit_per_unit = 21.59, d_packing_forwarding_per_unit = 3.32,
              d_unit_cost = 240.84, d_total_unit_cost_with_misc = 240.84,
              d_total_cost = None, d_outsourcing_mhr = 431.86,
              d_miscellaneous_amount = 0\<rparr>"
    unfolding request
    by (simp add: calculate_cost_estimation_def details detect_shape_def scenario_duty
        scenario_category fallback wage misc0 scenario_costs)
  have numbers: "4500 * (1 - 0.15) = (3825::real)" "15 * POWER_RATE_PER_UNIT = 75"
    "py_round (6000000 * ANNUAL_DEPRECIATION_RATE / 3825) 2 = 156.86"
    "py_round (6000000 * ANNUAL_DEPRECIATION_RATE / 3825 + 75) 2 = 231.86"
    by (simp_all add: service_constants py_round_def Let_def)
  from route scenario_inputs numbers wage show ?thesis
    by (intro conjI)
qed

theorem scenario_estimate_witness:
  "\<exists>response.
     calculate_cost_estimation float_decimal
       \<lparr>rq_material = STEEL, rq_operation_type = TURNING,
        rq_dimensions = \<lparr>dim_diameter = Some 50, dim_length = 200, dim_breadth = None,
                          dim_height = None\<rparr>,
        rq_machine_name = ''CNC Lathe'', rq_man_hours_per_unit = 0.5,
        rq_duty_category = None, rq_miscellaneous_amount = None\<rparr>
       \<lparr>operation_type_table = [\<lparr>ot_id = 1, ot_operation_name = ''Turning''\<rparr>],
        machines_table = [\<lparr>mc_id = 3, mc_name = ''CNC Lathe'', mc_op_id = Some 1\<rparr>],
        duties_table = [\<lparr>dt_id = 2, dt_name = ''Medium duty''\<rparr>],
        mhr_table = [], failing = {}\<rparr> = Inr response \<and>
     rs_duty_category response = ''medium'' \<and>
     d_machine_hour_rate (rs_cost_breakdown response) = 231.86 \<and>
     d_unit_cost (rs_cost_breakdown response) = 240.84"
proof -
  have "select_machine_by_name
      \<lparr>operation_type_table = [\<lparr>ot_id = 1, ot_operation_name = ''Turning''\<rparr>],
       machines_table = [\<lparr>mc_id = 3, mc_name = ''CNC Lathe'', mc_op_id = Some 1\<rparr>],
       duties_table = [\<lparr>dt_id = 2, dt_name = ''Medium duty''\<rparr>],
       mhr_table = [], failing = {}\<rparr> ''CNC Lathe'' =
      Inr (Some \<lparr>mc_id = 3, mc_name = ''CNC Lathe'', mc_op_id = Some 1\<rparr>)"
    by (simp add: select_machine_by_name_def)
  from scenario_estimate [OF this refl, of None float_decimal]
  obtain response where
    "calculate_cost_estimation float_decimal
       \<lparr>rq_material = STEEL, rq_operation_type = TURNING,
        rq_dimensions = \<lparr>dim_diameter = Some 50, dim_length = 200, dim_breadth = None,
                          dim_height = None\<rparr>,
        rq_machine_name = ''CNC Lathe'', rq_man_hours_per_unit = 0.5,
        rq_duty_category = None, rq_miscellaneous_amount = None\<rparr>
       \<lparr>operation_type_table = [\<lparr>ot_id = 1, ot_operation_name = ''Turning''\<rparr>],
        machines_table = [\<lparr>mc_id = 3, mc_name = ''CNC Lathe'', mc_op_id = Some 1\<rparr>],
        duties_table = [\<lparr>dt_id = 2, dt_name = ''Medium duty''\<rparr>],
        mhr_table = [], failing = {}\<rparr> = Inr response"
    "rs_duty_category response = ''medium''"
    "rs_cost_breakdown response =
       \<lparr>d_man_hours_per_unit = 0.5, d_machine_hour_rate = 231.86, d_wage_rate = 100,
        d_basic_cost_per_unit = 165.93, d_overheads_per_unit = 50,
        d_profit_per_unit = 21.59, d_packing_forwarding_per_unit = 3.32,
        d_unit_cost = 240.84, d_total_unit_cost_with_misc = 240.84,
        d_total_cost = None, d_outsourcing_mhr = 431.86,
        d_miscellaneous_amount = 0\<rparr>"
    by auto
  then show ?thesis
    by (intro exI [of _ response]) simp
qed

section \<open>Facts about the dimension validator\<close>

lemma contains_infix: "contains (xs @ p @ ys) p"
proof (induction xs)
  case Nil
  show ?case
    by (cases p) (simp_all add: startswith_def)
next
  case (Cons x xs)
  then show ?case
    by (cases p) simp_all
qed

lemma contains_quoted: "contains (pre @ quoted f @ post) f"
  using contains_infix [of "pre @ [CHR 0x27]" f "[CHR 0x27] @ post"]
  by (simp add: quoted_def)

lemma names_operation: "contains (for_operation op @ rest) (operation_value op)"
  using contains_infix [of "''For ''" "operation_value op" "'' operation, '' @ rest"]
  by (simp add: for_operation_def)

lemma validate_round_operation:
  assumes "op = TURNING \<or> op = BORING"
  shows "validate_dimensions_by_operation (Some op) v =
    (if dim_diameter v = None then
       Inl (ValueError (for_operation op @ quoted ''diameter'' @ '' is required''))
     else if dim_breadth v \<noteq> None \<or> dim_height v \<noteq> None then
       Inl (ValueError (for_operation op @ ''only '' @ quoted ''diameter'' @
         '' and '' @ quoted ''length'' @ '' are needed (round part)''))
     else Inr v)"
  using assms
  by (elim disjE) (simp_all add: validate_dimensions_by_operation_def Let_def)

lemma validate_rectangular_operation:
  assumes "op = MILLING \<or> op = GRINDING \<or> op = SURFACE_TREATMENT"
  shows "validate_dimensions_by_operation (Some op) v =
    (if dim_breadth v = None \<or> dim_height v = None then
       Inl (ValueError (for_operation op @ quoted ''length'' @ '', '' @
         quoted ''breadth'' @ '', and '' @ quoted ''height'' @ '' are required''))
     else if dim_diameter v \<noteq> None then
       Inl (ValueError (for_operation op @ ''only '' @ quoted ''length'' @ '', '' @
         quoted ''breadth'' @ '', and '' @ quoted ''height'' @
         '' are needed (rectangular part)''))
     else Inr v)"
  using assms
  by (elim disjE) (simp_all add: validate_dimensions_by_operation_def Let_def)

lemma validate_flexible_operation:
  assumes "op = DRILLING \<or> op = WELDING \<or> op = HEAT_TREATMENT"
  shows "validate_dimensions_by_operation (Some op) v =
    (if \<not> (dim_diameter v \<noteq> None \<or> (dim_breadth v \<noteq> None \<and> dim_height v \<noteq> None)) then
       Inl (ValueError (for_operation op @
         ''provide either (diameter + length) for round parts OR '' @
         ''(length + breadth + height) for rectangular parts''))
     else if dim_diameter v \<noteq> None \<and> (dim_breadth v \<noteq> None \<and> dim_height v \<noteq> None) then
       Inl (ValueError (for_operation op @
         ''provide EITHER round dimensions (diameter + length) OR '' @
         ''rectangular dimensions (length + breadth + height), not both''))
     else Inr v)"
  using assms
  by (elim disjE) (simp_all add: validate_dimensions_by_operation_def Let_def)


lemma detect_shape_accepts:
  "isl (detect_shape v) \<longleftrightarrow>
   dim_diameter v = None \<and> (dim_breadth v = None \<or> dim_height v = None)"
  by (cases "dim_diameter v"; cases "dim_breadth v"; cases "dim_height v")
    (simp_all add: detect_shape_def)

lemma contains_append_left: "contains s p \<Longrightarrow> contains (a @ s) p"
proof (induction a)
  case Nil
  then show ?case by simp
next
  case (Cons x a)
  then show ?case by (cases p) simp_all
qed

lemma round_messages_silent:
  assumes "op = TURNING \<or> op = BORING"
  shows "\<not> contains (for_operation op @ quoted ''diameter'' @ '' is required'') ''breadth'' \<and>
         \<not> contains (for_operation op @ quoted ''diameter'' @ '' is required'') ''height'' \<and>
         \<not> contains (for_operation op @ ''only '' @ quoted ''diameter'' @
              '' and '' @ quoted ''length'' @ '' are needed (round part)'') ''breadth'' \<and>
         \<not> contains (for_operation op @ ''only '' @ quoted ''diameter'' @
              '' and '' @ quoted ''length'' @ '' are needed (round part)'') ''height''"
    (is "?P op")
proof -
  have "?P TURNING" "?P BORING"
    by code_simp+
  with assms show ?thesis
    by blast
qed

lemma rectangular_messages_silent:
  assumes "op = MILLING \<or> op = GRINDING \<or> op = SURFACE_TREATMENT"
  shows "\<not> contains (for_operation op @ quoted ''length'' @ '', '' @
              quoted ''breadth'' @ '', and '' @ quoted ''height'' @ '' are required'')
            ''diameter'' \<and>
         \<not> contains (for_operation op @ ''only '' @ quoted ''length'' @ '', '' @
              quoted ''breadth'' @ '', and '' @ quoted ''height'' @
              '' are needed (rectangular part)'') ''diameter''"
    (is "?P op")
proof -
  have "?P MILLING" "?P GRINDING" "?P SURFACE_TREATMENT"
    by code_simp+
  with assms show ?thesis
    by blast
qed

lemma flexible_messages_name_fields:
  "contains (''provide either (diameter + length) for round parts OR '' @
             ''(length + breadth + height) for rectangular parts'') ''diameter''"
  "contains (''provide either (diameter + length) for round parts OR '' @
             ''(length + breadth + height) for rectangular parts'') ''length''"
  "contains (''provide either (diameter + length) for round parts OR '' @
             ''(length + breadth + height) for rectangular parts'') ''breadth''"
  "contains (''provide either (diameter + length) for round parts OR '' @
             ''(length + breadth + height) for rectangular parts'') ''height''"
  "contains (''provide EITHER round dimensions (diameter + length) OR '' @
             ''rectangular dimensions (length + breadth + height), not both'') ''diameter''"
  "contains (''provide EITHER round dimensions (diameter + length) OR '' @
             ''rectangular dimensions (length + breadth + height), not both'') ''length''"
  "contains (''provide EITHER round dimensions (diameter + length) OR '' @
             ''rectangular dimensions (length + breadth + height), not both'') ''breadth''"
  "contains (''provide EITHER round dimensions (diameter + length) OR '' @
             ''rectangular dimensions (length + breadth + height), not both'') ''height''"
  by code_simp+

text \<open>
  C6, as claimed, has every validation error name the missing or forbidden fields. A
  turning request that carries a breadth is rejected with a message that lists the needed
  fields \<open>diameter\<close> and \<open>length\<close> and does not name the forbidden \<open>breadth\<close>.
\<close>

theorem forbidden_field_counterexample:
  "validate_dimensions_by_operation (Some TURNING)
     \<lparr>dim_diameter = Some 50, dim_length = 200, dim_breadth = Some 10, dim_height = None\<rparr> =
   Inl (ValueError ''For turning operation, only 'diameter' and 'length' are needed (round part)'') \<and>
   \<not> contains ''For turning operation, only 'diameter' and 'length' are needed (round part)''
         ''breadth''"
  by code_simp

text \<open>
  C6, amended. The dimension validation of the estimation request fails, with an error that
  names the operation, exactly when: turning or boring lacks the diameter or has a breadth or
  a height; milling, grinding or surface treatment lacks the breadth or the height or has a
  diameter; drilling, welding or heat treatment has both or neither of the round set
  (diameter and length) and the rectangular set (length, breadth and height). Every other
  positive dimension set is accepted unchanged, and the route then finds its shape. The
  error of turning and boring always names \<open>diameter\<close> and never \<open>breadth\<close> or \<open>height\<close>; the
  error of milling, grinding and surface treatment always names \<open>length\<close>, \<open>breadth\<close> and
  \<open>height\<close> and never \<open>diameter\<close>: a missing field is named, a forbidden field that is present
  is not. The error of drilling, welding and heat treatment names all four fields.
\<close>

theorem dimension_validation:
  "(let has_round = (dim_diameter v \<noteq> None);
        has_rectangular = (dim_breadth v \<noteq> None \<and> dim_height v \<noteq> None);
        rejected =
          (if op \<in> {TURNING, BORING} then
             dim_diameter v = None \<or> dim_breadth v \<noteq> None \<or> dim_height v \<noteq> None
           else if op \<in> {MILLING, GRINDING, SURFACE_TREATMENT} then
             dim_breadth v = None \<or> dim_height v = None \<or> dim_diameter v \<noteq> None
           else (has_round \<and> has_rectangular) \<or> (\<not> has_round \<and> \<not> has_rectangular))
    in (rejected \<longrightarrow>
          (\<exists>msg. validate_dimensions_by_operation (Some op) v = Inl (ValueError msg) \<and>
                 contains msg (operation_value op) \<and>
                 (if op \<in> {TURNING, BORING} then
                    contains msg ''diameter'' \<and>
                    \<not> contains msg ''breadth'' \<and> \<not> contains msg ''height''
                  else if op \<in> {MILLING, GRINDING, SURFACE_TREATMENT} then
                    contains msg ''length'' \<and> contains msg ''breadth'' \<and>
                    contains msg ''height'' \<and> \<not> contains msg ''diameter''
                  else
                    contains msg ''diameter'' \<and> contains msg ''length'' \<and>
                    contains msg ''breadth'' \<and> contains msg ''height''))) \<and>
       (\<not> rejected \<and> component_dimensions_valid v \<longrightarrow>
          validate_dimensions_by_operation (Some op) v = Inr v \<and>
          \<not> isl (detect_shape v)))"
proof -
  consider (round) "op = TURNING \<or> op = BORING"
    | (rectangular) "op = MILLING \<or> op = GRINDING \<or> op = SURFACE_TREATMENT"
    | (flexible) "op = DRILLING \<or> op = WELDING \<or> op = HEAT_TREATMENT"
    by (cases op) auto
  then show ?thesis
  proof cases
    case round
    then have cls: "op \<in> {TURNING, BORING}"
      by auto
    define missing where
      "missing = for_operation op @ quoted ''diameter'' @ '' is required''"
    define forbidden where
      "forbidden = for_operation op @ ''only '' @ quoted ''diameter'' @
         '' and '' @ quoted ''length'' @ '' are needed (round part)''"
    have result: "validate_dimensions_by_operation (Some op) v =
        (if dim_diameter v = None then Inl (ValueError missing)
         else if dim_breadth v \<noteq> None \<or> dim_height v \<noteq> None then Inl (ValueError forbidden)
         else Inr v)"
      unfolding missing_def forbidden_def by (rule validate_round_operation [OF round])
    have names: "contains missing (operation_value op)" "contains forbidden (operation_value op)"
      "contains missing ''diameter''"
      unfolding missing_def forbidden_def
      by (rule names_operation, rule names_operation, rule contains_quoted)
    have diameter: "contains forbidden ''diameter''"
      unfolding forbidden_def
      using contains_quoted [of "for_operation op @ ''only ''" "''diameter''"
          "'' and '' @ quoted ''length'' @ '' are needed (round part)''"]
      by (simp only: append_assoc)
    have silent: "\<not> contains missing ''breadth''" "\<not> contains missing ''height''"
      "\<not> contains forbidden ''breadth''" "\<not> contains forbidden ''height''"
      unfolding missing_def forbidden_def using round_messages_silent [OF round] by blast+
    show ?thesis
      unfolding Let_def result
      using cls names diameter silent by (auto simp: detect_shape_accepts)
  next
    case rectangular
    then have cls: "op \<notin> {TURNING, BORING}" "op \<in> {MILLING, GRINDING, SURFACE_TREATMENT}"
      by auto
    define missing where
      "missing = for_operation op @ quoted ''length'' @ '', '' @
         quoted ''breadth'' @ '', and '' @ quoted ''height'' @ '' are required''"
    define forbidden where
      "forbidden = for_operation op @ ''only '' @ quoted ''length'' @ '', '' @
         quoted ''breadth'' @ '', and '' @ quoted ''height'' @
         '' are needed (rectangular part)''"
    have result: "validate_dimensions_by_operation (Some op) v =
        (if dim_breadth v = None \<or> dim_height v = None then Inl (ValueError missing)
         else if dim_diameter v \<noteq> None then Inl (ValueError forbidden)
         else Inr v)"
      unfolding missing_def forbidden_def by (rule validate_rectangular_operation [OF rectangular])
    have names: "contains missing (operation_value op)" "contains forbidden (operation_value op)"
      unfolding missing_def forbidden_def by (rule names_operation)+
    have missing_fields: "contains missing ''length''" "contains missing ''breadth''"
      "contains missing ''height''"
      unfolding missing_def
      using contains_quoted [of "for_operation op" "''length''"
          "'', '' @ quoted ''breadth'' @ '', and '' @ quoted ''height'' @ '' are required''"]
        contains_quoted [of "for_operation op @ quoted ''length'' @ '', ''" "''breadth''"
          "'', and '' @ quoted ''height'' @ '' are required''"]
        contains_quoted [of "for_operation op @ quoted ''length'' @ '', '' @
          quoted ''breadth'' @ '', and ''" "''height''" "'' are required''"]
      by (simp_all only: append_assoc)
    have forbidden_fields: "contains forbidden ''length''" "contains forbidden ''breadth''"
      "contains forbidden ''height''"
      unfolding forbidden_def
      using contains_quoted [of "for_operation op @ ''only ''" "''length''"
          "'', '' @ quoted ''breadth'' @ '', and '' @ quoted ''height'' @
           '' are needed (rectangular part)''"]
        contains_quoted [of "for_operation op @ ''only '' @ quoted ''length'' @ '', ''"
          "''breadth''" "'', and '' @ quoted ''height'' @ '' are needed (rectangular part)''"]
        contains_quoted [of "for_operation op @ ''only '' @ quoted ''length'' @ '', '' @
          quoted ''breadth'' @ '', and ''" "''height''" "'' are needed (rectangular part)''"]
      by (simp_all only: append_assoc)
    have silent: "\<not> contains missing ''diameter''" "\<not> contains forbidden ''diameter''"
      unfolding missing_def forbidden_def
      using rectangular_messages_silent [OF rectangular] by blast+
    show ?thesis
      unfolding Let_def result
      using cls names missing_fields forbidden_fields silent
      by (auto simp: detect_shape_accepts)
  next
    case flexible
    then have cls: "op \<notin> {TURNING, BORING}" "op \<notin> {MILLING, GRINDING, SURFACE_TREATMENT}"
      by auto
    define neither where
      "neither = for_operation op @
         ''provide either (diameter + length) for round parts OR '' @
         ''(length + breadth + height) for rectangular parts''"
    define both where
      "both = for_operation op @
         ''provide EITHER round dimensions (diameter + length) OR '' @
         ''rectangular dimensions (length + breadth + height), not both''"
    have result: "validate_dimensions_by_operation (Some op) v =
        (if \<not> (dim_diameter v \<noteq> None \<or> (dim_breadth v \<noteq> None \<and> dim_height v \<noteq> None)) then
           Inl (ValueError neither)
         else if dim_diameter v \<noteq> None \<and> (dim_breadth v \<noteq> None \<and> dim_height v \<noteq> None) then
           Inl (ValueError both)
         else Inr v)"
      unfolding neither_def both_def by (rule validate_flexible_operation [OF flexible])
    have names: "contains neither (operation_value op)" "contains both (operation_value op)"
      unfolding neither_def both_def by (rule names_operation)+
    have fields: "contains neither ''diameter''" "contains neither ''length''"
      "contains neither ''breadth''" "contains neither ''height''"
      "contains both ''diameter''" "contains both ''length''"
      "contains both ''breadth''" "contains both ''height''"
      unfolding neither_def both_def
      by (rule contains_append_left, rule flexible_messages_name_fields)+
    show ?thesis
      unfolding Let_def result
      using cls names fields by (auto simp: detect_shape_accepts)
  qed
qed

theorem dimension_validation_witness:
  "(\<exists>msg. validate_dimensions_by_operation (Some MILLING)
            \<lparr>dim_diameter = Some 50, dim_length = 200, dim_breadth = None, dim_height = None\<rparr>
            = Inl (ValueError msg) \<and>
          contains msg ''milling'' \<and> contains msg ''length'' \<and> contains msg ''breadth'' \<and>
          contains msg ''height'' \<and> \<not> contains msg ''diameter'') \<and>
   (\<exists>msg. validate_dimensions_by_operation (Some BORING)
            \<lparr>dim_diameter = Some 50, dim_length = 200, dim_breadth = None,
             dim_height = Some 5\<rparr>
            = Inl (ValueError msg) \<and>
          contains msg ''boring'' \<and> contains msg ''diameter'' \<and>
          \<not> contains msg ''breadth'' \<and> \<not> contains msg ''height'') \<and>
   component_dimensions_valid
     \<lparr>dim_diameter = Some 50, dim_length = 200, dim_breadth = None, dim_height = None\<rparr> \<and>
   validate_dimensions_by_operation (Some TURNING)
     \<lparr>dim_diameter = Some 50, dim_length = 200, dim_breadth = None, dim_height = None\<rparr> =
     Inr \<lparr>dim_diameter = Some 50, dim_length = 200, dim_breadth = None, dim_height = None\<rparr> \<and>
   \<not> isl (detect_shape
            \<lparr>dim_diameter = Some 50, dim_length = 200, dim_breadth = None, dim_height = None\<rparr>)"
  using
    dimension_validation [where op = MILLING and
      v = "\<lparr>dim_diameter = Some 50, dim_length = 200, dim_breadth = None, dim_height = None\<rparr>"]
    dimension_validation [where op = BORING and
      v = "\<lparr>dim_diameter = Some 50, dim_length = 200, dim_breadth = None,
            dim_height = Some 5\<rparr>"]
    dimension_validation [where op = TURNING and
      v = "\<lparr>dim_diameter = Some 50, dim_length = 200, dim_breadth = None, dim_height = None\<rparr>"]
  by (simp add: Let_def component_dimensions_valid_def field_gt_0_def)

end
